theory Spec2Isabelle
  imports Complex_Main "HOL-Library.Word" "HOL-Library.Signed_Division"
begin

section \<open>Transformations (transformation.hpp, transformation.cpp)\<close>

text \<open>
  The C++ types \<open>float\<close> and \<open>double\<close> are type parameters \<open>'f\<close> and \<open>'d\<close>. The arithmetic
  the source writes with \<open>+\<close>, \<open>-\<close>, \<open>*\<close>, \<open>/\<close> and the literals \<open>0\<close> and \<open>1\<close> is written with the
  operations of the syntactic classes \<open>plus\<close>, \<open>minus\<close>, \<open>times\<close>, \<open>inverse\<close>, \<open>zero\<close> and \<open>one\<close>,
  which carry no algebraic law at all: nothing proved below relies on how floating-point
  arithmetic rounds. Conversions between integers and floating-point numbers and the Qt
  function \<open>QQuaternion::slerp\<close> are parameters (records \<open>FloatOps\<close> and \<open>DoubleOps\<close>).

  \<open>long long\<close> and \<open>int\<close> values are modelled by \<open>int\<close>: signed overflow is undefined
  behaviour in C++, so the model describes the runs in which all integer values stay in
  range. Integer division and remainder are the truncating ones of C++ (\<open>sdiv\<close>, \<open>smod\<close>).
\<close>

type_synonym 'f QVector3D = "'f \<times> 'f \<times> 'f"

text \<open>A quaternion is (scalar, x, y, z).\<close>

type_synonym 'f QQuaternion = "'f \<times> 'f \<times> 'f \<times> 'f"

text \<open>Qt: \<open>QVector3D()\<close> constructs the null vector, \<open>QQuaternion()\<close> the identity
  quaternion with scalar 1 and vector (0, 0, 0).\<close>

definition QVector3D_default :: "'f::zero QVector3D" where
  "QVector3D_default = (0, 0, 0)"

definition QQuaternion_default :: "'f::{zero,one} QQuaternion" where
  "QQuaternion_default = (1, 0, 0, 0)"

text \<open>Qt: \<open>float * QVector3D\<close> and \<open>QVector3D + QVector3D\<close> work componentwise.\<close>

fun QVector3D_scale :: "'f::times \<Rightarrow> 'f QVector3D \<Rightarrow> 'f QVector3D" where
  "QVector3D_scale a (x, y, z) = (a * x, a * y, a * z)"

fun QVector3D_add :: "'f::plus QVector3D \<Rightarrow> 'f QVector3D \<Rightarrow> 'f QVector3D" where
  "QVector3D_add (x0, y0, z0) (x1, y1, z1) = (x0 + x1, y0 + y1, z0 + z1)"

record 'f Transformation =
  translation :: "'f QVector3D"
  rotation :: "'f QQuaternion"
  scaling :: "'f QVector3D"

text \<open>\<open>Transformation::Transformation()\<close>:
  \<open>translation(), rotation(), scaling(1.0f, 1.0f, 1.0f)\<close>.\<close>

definition Transformation_default :: "'f::{zero,one} Transformation" where
  "Transformation_default =
     \<lparr>translation = QVector3D_default, rotation = QQuaternion_default, scaling = (1, 1, 1)\<rparr>"

record 'f FloatOps =
  float_of_ll :: "int \<Rightarrow> 'f"
  QQuaternion_slerp :: "'f QQuaternion \<Rightarrow> 'f QQuaternion \<Rightarrow> 'f \<Rightarrow> 'f QQuaternion"

text \<open>\<open>Transformation::interpolate(p0, p1, alpha)\<close>.\<close>

definition Transformation_interpolate ::
  "('f::{one,plus,minus,times}) FloatOps \<Rightarrow> 'f Transformation \<Rightarrow> 'f Transformation \<Rightarrow> 'f
     \<Rightarrow> 'f Transformation" where
  "Transformation_interpolate fo p0 p1 alpha =
     \<lparr>translation = QVector3D_add (QVector3D_scale (1 - alpha) (translation p0))
                                   (QVector3D_scale alpha (translation p1)),
      rotation = QQuaternion_slerp fo (rotation p0) (rotation p1) alpha,
      scaling = QVector3D_add (QVector3D_scale (1 - alpha) (scaling p0))
                               (QVector3D_scale alpha (scaling p1))\<rparr>"


section \<open>Animations (animation.hpp, animation.cpp)\<close>

text \<open>A key frame: the member \<open>t\<close> of the source is the field \<open>kf_t\<close> (time in
  microseconds).\<close>

record 'f Keyframe =
  kf_t :: int
  transformation :: "'f Transformation"

record 'f Animation =
  keyframes :: "'f Keyframe list"

text \<open>
  Failures are values. \<open>IndexOutOfRange\<close> is an access of a \<open>QList\<close> or \<open>QVector\<close> outside
  its bounds (an assertion failure in Qt); \<open>Fatal msg\<close> is \<open>qCritical(msg); std::exit(1)\<close>.
\<close>

datatype error = IndexOutOfRange | Fatal string

text \<open>\<open>operator[]\<close> of \<open>QList\<close> and \<open>QVector\<close>.\<close>

definition QList_at :: "'a list \<Rightarrow> int \<Rightarrow> error + 'a" where
  "QList_at xs i = (if 0 \<le> i \<and> i < int (length xs) then Inr (xs ! nat i) else Inl IndexOutOfRange)"

text \<open>\<open>QList::insert(i, v)\<close>: prepends for \<open>i \<le> 0\<close>, appends for \<open>i \<ge> size()\<close>.\<close>

definition QList_insert :: "'a list \<Rightarrow> int \<Rightarrow> 'a \<Rightarrow> 'a list" where
  "QList_insert xs i v = take (nat i) xs @ v # drop (nat i) xs"

definition startTime :: "'f Animation \<Rightarrow> int" where
  "startTime a = (if length (keyframes a) = 0 then 0 else kf_t (hd (keyframes a)))"

definition endTime :: "'f Animation \<Rightarrow> int" where
  "endTime a = (if length (keyframes a) = 0 then 0 else kf_t (last (keyframes a)))"

text \<open>The \<open>while (b >= a)\<close> loop of \<open>findKeyframeIndices\<close>; the result is
  \<open>(lowerIndex, higherIndex)\<close>.\<close>

function findKeyframeIndices_loop ::
  "'f Keyframe list \<Rightarrow> int \<Rightarrow> int \<Rightarrow> int \<Rightarrow> error + (int \<times> int)" where
  "findKeyframeIndices_loop kfs ts a b =
     (if b \<ge> a then
        (case QList_at kfs ((a + b) sdiv 2) of
           Inl e \<Rightarrow> Inl e
         | Inr k \<Rightarrow>
             if kf_t k < ts then findKeyframeIndices_loop kfs ts ((a + b) sdiv 2 + 1) b
             else if kf_t k > ts then findKeyframeIndices_loop kfs ts a ((a + b) sdiv 2 - 1)
             else Inr ((a + b) sdiv 2, (a + b) sdiv 2))
      else Inr (b, a))"
  by pat_completeness auto
termination
proof (relation "measure (\<lambda>(kfs, ts, a, b). nat (b - a + 1))")
  show "wf (measure (\<lambda>(kfs :: 'f Keyframe list, ts :: int, a :: int, b :: int). nat (b - a + 1)))"
    by simp
next
  fix kfs :: "'f Keyframe list" and ts a b :: int and k :: "'f Keyframe"
  assume "a \<le> b"
  then have "a \<le> (a + b) sdiv 2"
    by (auto simp: signed_divide_int_def sgn_if; linarith)
  with \<open>a \<le> b\<close>
  show "((kfs, ts, (a + b) sdiv 2 + 1, b), (kfs, ts, a, b))
          \<in> measure (\<lambda>(kfs, ts, a, b). nat (b - a + 1))"
    by simp
next
  fix kfs :: "'f Keyframe list" and ts a b :: int and k :: "'f Keyframe"
  assume "a \<le> b"
  then have "(a + b) sdiv 2 \<le> b"
    by (auto simp: signed_divide_int_def sgn_if; linarith)
  with \<open>a \<le> b\<close>
  show "((kfs, ts, a, (a + b) sdiv 2 - 1), (kfs, ts, a, b))
          \<in> measure (\<lambda>(kfs, ts, a, b). nat (b - a + 1))"
    by simp
qed

definition findKeyframeIndices :: "'f Keyframe list \<Rightarrow> int \<Rightarrow> error + (int \<times> int)" where
  "findKeyframeIndices kfs ts = findKeyframeIndices_loop kfs ts 0 (int (length kfs) - 1)"

text \<open>\<open>Animation::addKeyframe\<close>; the assignment \<open>_keyframes[lowerIndex] = keyframe\<close> fails
  outside the bounds of the list.\<close>

definition addKeyframe :: "'f Animation \<Rightarrow> 'f Keyframe \<Rightarrow> error + 'f Animation" where
  "addKeyframe a keyframe =
     (if length (keyframes a) = 0 then Inr (a\<lparr>keyframes := keyframes a @ [keyframe]\<rparr>)
      else if kf_t keyframe > endTime a then Inr (a\<lparr>keyframes := keyframes a @ [keyframe]\<rparr>)
      else if kf_t keyframe < startTime a then Inr (a\<lparr>keyframes := keyframe # keyframes a\<rparr>)
      else
        (case findKeyframeIndices (keyframes a) (kf_t keyframe) of
           Inl e \<Rightarrow> Inl e
         | Inr (lowerIndex, higherIndex) \<Rightarrow>
             if lowerIndex = higherIndex then
               (if 0 \<le> lowerIndex \<and> lowerIndex < int (length (keyframes a))
                then Inr (a\<lparr>keyframes := (keyframes a)[nat lowerIndex := keyframe]\<rparr>)
                else Inl IndexOutOfRange)
             else Inr (a\<lparr>keyframes := QList_insert (keyframes a) higherIndex keyframe\<rparr>)))"

text \<open>A sequence of \<open>addKeyframe\<close> calls; the first failure ends it.\<close>

fun addKeyframes :: "'f Animation \<Rightarrow> 'f Keyframe list \<Rightarrow> error + 'f Animation" where
  "addKeyframes a [] = Inr a"
| "addKeyframes a (keyframe # rest) =
     (case addKeyframe a keyframe of Inl e \<Rightarrow> Inl e | Inr a' \<Rightarrow> addKeyframes a' rest)"

text \<open>\<open>Animation::interpolate\<close>. The source reads \<open>_keyframes[higherIndex]\<close> before
  \<open>_keyframes[lowerIndex]\<close> when it computes \<open>alpha\<close>.\<close>

definition interpolate ::
  "('f::{zero,one,plus,minus,times,inverse}) FloatOps \<Rightarrow> 'f Animation \<Rightarrow> int
     \<Rightarrow> error + 'f Transformation" where
  "interpolate fo a ts =
     (if length (keyframes a) = 0 then Inr Transformation_default
      else if ts \<le> startTime a then Inr (transformation (hd (keyframes a)))
      else if ts \<ge> endTime a then Inr (transformation (last (keyframes a)))
      else
        (case findKeyframeIndices (keyframes a) ts of
           Inl e \<Rightarrow> Inl e
         | Inr (lowerIndex, higherIndex) \<Rightarrow>
             if lowerIndex = higherIndex then
               (case QList_at (keyframes a) lowerIndex of
                  Inl e \<Rightarrow> Inl e
                | Inr k \<Rightarrow> Inr (transformation k))
             else
               (case QList_at (keyframes a) higherIndex of
                  Inl e \<Rightarrow> Inl e
                | Inr hi \<Rightarrow>
                    (case QList_at (keyframes a) lowerIndex of
                       Inl e \<Rightarrow> Inl e
                     | Inr lo \<Rightarrow>
                         Inr (Transformation_interpolate fo (transformation lo) (transformation hi)
                               (1 - float_of_ll fo (kf_t hi - ts)
                                      / float_of_ll fo (kf_t hi - kf_t lo)))))))"

text \<open>The invariant of the key frame list: strictly ascending time stamps, hence at most
  one key frame for each time stamp.\<close>

definition keyframes_sorted :: "'f Animation \<Rightarrow> bool" where
  "keyframes_sorted a = sorted_wrt (<) (map kf_t (keyframes a))"

text \<open>All key frames before index \<open>n\<close> are earlier than \<open>ts\<close>; all key frames from index
  \<open>n\<close> on are later.\<close>

definition all_below :: "'f Keyframe list \<Rightarrow> int \<Rightarrow> nat \<Rightarrow> bool" where
  "all_below kfs ts n = (\<forall>i<n. kf_t (kfs ! i) < ts)"

definition all_above :: "'f Keyframe list \<Rightarrow> int \<Rightarrow> nat \<Rightarrow> bool" where
  "all_above kfs ts n = (\<forall>i. n \<le> i \<and> i < length kfs \<longrightarrow> ts < kf_t (kfs ! i))"


section \<open>Scene and configuration (scene.hpp, simulator.hpp)\<close>

text \<open>
  Of the classes \<open>Light\<close>, \<open>Object\<close>, \<open>Pipeline\<close> and \<open>Simulator\<close> the model keeps the members
  that the time stamp schedule, the configuration checks and the result accessors read.
  Materials, meshes, the projection, the PMD chip parameters, the shader programs and the
  contents of GPU textures are left out.
\<close>

record Light =
  shadowMap :: bool
  reflectiveShadowMap :: bool

typedecl Shape

record Object =
  shapes :: "Shape list"

record 'f Scene =
  lights :: "Light list"
  lightAnimations :: "'f Animation list"
  objects :: "Object list"
  objectAnimations :: "'f Animation list"

text \<open>\<open>Scene::Scene()\<close>: all lists are empty.\<close>

definition Scene_default :: "'f Scene" where
  "Scene_default = \<lparr>lights = [], lightAnimations = [], objects = [], objectAnimations = []\<rparr>"

text \<open>\<open>Scene::addLight\<close> and \<open>Scene::addObject\<close>.\<close>

definition addLight :: "'f Scene \<Rightarrow> Light \<Rightarrow> 'f Animation \<Rightarrow> 'f Scene" where
  "addLight sc light animation =
     sc\<lparr>lights := lights sc @ [light], lightAnimations := lightAnimations sc @ [animation]\<rparr>"

definition addObject :: "'f Scene \<Rightarrow> Object \<Rightarrow> 'f Animation \<Rightarrow> 'f Scene" where
  "addObject sc object animation =
     sc\<lparr>objects := objects sc @ [object], objectAnimations := objectAnimations sc @ [animation]\<rparr>"

record 'd DoubleOps =
  double_of_ll :: "int \<Rightarrow> 'd"
  ll_of_double :: "'d \<Rightarrow> int"

record 'd ChipTiming =
  exposureTime :: 'd
  readoutTime :: 'd
  pauseTime :: 'd

text \<open>\<open>ChipTiming::ChipTiming()\<close>: \<open>exposureTime(1.0 / 60.0), readoutTime(1.0 / 60.0),
  pauseTime(0.0)\<close>. The literal \<open>60.0\<close> is the conversion of the integer 60.\<close>

definition ChipTiming_default :: "('d::{zero,one,inverse}) DoubleOps \<Rightarrow> 'd ChipTiming" where
  "ChipTiming_default dops =
     \<lparr>exposureTime = 1 / double_of_ll dops 60, readoutTime = 1 / double_of_ll dops 60,
      pauseTime = 0\<rparr>"

definition ChipTiming_subFrameDuration :: "('d::plus) ChipTiming \<Rightarrow> 'd" where
  "ChipTiming_subFrameDuration c = exposureTime c + readoutTime c"

text \<open>\<open>spatialSamples\<close> is a \<open>QSize\<close>: (width, height).\<close>

record 'f Pipeline =
  preprocLensDistortion :: bool
  postprocLensDistortion :: bool
  shadowMaps :: bool
  reflectiveShadowMaps :: bool
  subFrameTemporalSampling :: bool
  spatialSamples :: "int \<times> int"
  spatialSampleWeights :: "'f list"
  temporalSamples :: int

definition Pipeline_default :: "'f Pipeline" where
  "Pipeline_default =
     \<lparr>preprocLensDistortion = False, postprocLensDistortion = False, shadowMaps = False,
      reflectiveShadowMaps = False, subFrameTemporalSampling = True, spatialSamples = (1, 1),
      spatialSampleWeights = [], temporalSamples = 1\<rparr>"

record Output =
  rgb :: bool
  srgb :: bool
  pmd :: bool
  pmdCoordinates :: bool
  eyeSpacePositions :: bool
  customSpacePositions :: bool
  eyeSpaceNormals :: bool
  customSpaceNormals :: bool
  depthAndRange :: bool
  indices :: bool
  forwardFlow3D :: bool
  forwardFlow2D :: bool
  backwardFlow3D :: bool
  backwardFlow2D :: bool

definition Output_default :: Output where
  "Output_default =
     \<lparr>rgb = True, srgb = False, pmd = False, pmdCoordinates = False, eyeSpacePositions = False,
      customSpacePositions = False, eyeSpaceNormals = False, customSpaceNormals = False,
      depthAndRange = False, indices = False, forwardFlow3D = False, forwardFlow2D = False,
      backwardFlow3D = False, backwardFlow2D = False\<rparr>"


section \<open>The platform: floating point, Qt and OpenGL\<close>

text \<open>
  The shader programs whose link failure ends the process, and the OpenGL driver as the
  simulator sees it: whether a program links, and the texture name that \<open>glGenTextures\<close>
  returns for the element \<open>i\<close> of the member with the given name.
\<close>

datatype Program =
  ShadowMapPrg | ReflectiveShadowMapPrg | DepthPrg | LightPrg | GeomPrg | FlowPrg
  | PostprocLensDistortionPrg

record GL =
  link :: "Program \<Rightarrow> bool"
  texture :: "string \<Rightarrow> nat \<Rightarrow> 32 word"

record ('f, 'd) Platform =
  fops :: "'f FloatOps"
  dops :: "'d DoubleOps"
  gl :: GL

text \<open>\<open>v.resize(n); glGenTextures(n, v.data())\<close> for the member \<open>v\<close>.\<close>

definition glGenTextures :: "GL \<Rightarrow> string \<Rightarrow> int \<Rightarrow> 32 word list" where
  "glGenTextures g member n = map (texture g member) [0..<nat n]"

text \<open>One vector of cube map textures for each sub-frame: a texture for each light
  that has the flag, 0 for the others.\<close>

definition glGenCubeTextures ::
  "GL \<Rightarrow> string \<Rightarrow> int \<Rightarrow> Light list \<Rightarrow> (Light \<Rightarrow> bool) \<Rightarrow> 32 word list list" where
  "glGenCubeTextures g member n ls flag =
     map (\<lambda>subFrame.
            map (\<lambda>light. if flag (ls ! light) then texture g member (subFrame * length ls + light)
                          else 0)
                [0..<length ls])
         [0..<nat n]"



section \<open>The simulator state (simulator.hpp)\<close>

text \<open>A member \<open>_name\<close> of the class \<open>Simulator\<close> is the field \<open>m_name\<close>.\<close>

record ('f, 'd) Simulator =
  m_cameraAnimation :: "'f Animation"
  m_scene :: "'f Scene"
  m_chipTiming :: "'d ChipTiming"
  m_pipeline :: "'f Pipeline"
  m_output :: Output
  m_recreateTimestamps :: bool
  m_startTimestamp :: int
  m_endTimestamp :: int
  m_haveLastFrameTimestamp :: bool
  m_lastFrameTimestamp :: int
  m_recreateShaders :: bool
  m_recreateOutput :: bool
  m_timestamps :: "int list"
  m_cameraTransformations :: "'f Transformation list"
  m_lightTransformations :: "'f Transformation list list"
  m_objectTransformations :: "'f Transformation list list"
  m_shadowMapDepthBufs :: "32 word list list"
  m_reflectiveShadowMapTexs :: "32 word list list"
  m_pmdCoordinatesTex :: "32 word"
  m_depthBuffers :: "32 word list"
  m_rgbTexs :: "32 word list"
  m_srgbTexs :: "32 word list"
  m_pmdDigNumTexs :: "32 word list"
  m_eyeSpacePosTexs :: "32 word list"
  m_customSpacePosTexs :: "32 word list"
  m_eyeSpaceNormalTexs :: "32 word list"
  m_customSpaceNormalTexs :: "32 word list"
  m_depthAndRangeTexs :: "32 word list"
  m_indicesTexs :: "32 word list"
  m_forwardFlow3DTexs :: "32 word list"
  m_forwardFlow2DTexs :: "32 word list"
  m_backwardFlow3DTexs :: "32 word list"
  m_backwardFlow2DTexs :: "32 word list"

text \<open>
  \<open>Simulator::Simulator()\<close> sets the three dirty flags and default-constructs the
  configuration. It does not initialise \<open>_startTimestamp\<close>, \<open>_endTimestamp\<close>,
  \<open>_haveLastFrameTimestamp\<close> and \<open>_lastFrameTimestamp\<close>: whatever they hold is a parameter.
\<close>

definition Simulator_new ::
  "('d::{zero,one,inverse}) DoubleOps \<Rightarrow> int \<Rightarrow> int \<Rightarrow> bool \<Rightarrow> int \<Rightarrow> ('f, 'd) Simulator" where
  "Simulator_new dop u_start u_end u_have u_last =
     \<lparr>m_cameraAnimation = \<lparr>keyframes = []\<rparr>, m_scene = Scene_default,
      m_chipTiming = ChipTiming_default dop, m_pipeline = Pipeline_default,
      m_output = Output_default,
      m_recreateTimestamps = True, m_startTimestamp = u_start, m_endTimestamp = u_end,
      m_haveLastFrameTimestamp = u_have, m_lastFrameTimestamp = u_last,
      m_recreateShaders = True, m_recreateOutput = True,
      m_timestamps = [], m_cameraTransformations = [], m_lightTransformations = [],
      m_objectTransformations = [], m_shadowMapDepthBufs = [], m_reflectiveShadowMapTexs = [],
      m_pmdCoordinatesTex = 0, m_depthBuffers = [], m_rgbTexs = [], m_srgbTexs = [],
      m_pmdDigNumTexs = [], m_eyeSpacePosTexs = [], m_customSpacePosTexs = [],
      m_eyeSpaceNormalTexs = [], m_customSpaceNormalTexs = [], m_depthAndRangeTexs = [],
      m_indicesTexs = [], m_forwardFlow3DTexs = [], m_forwardFlow2DTexs = [],
      m_backwardFlow3DTexs = [], m_backwardFlow2DTexs = []\<rparr>"

subsection \<open>Configuration setters\<close>

definition setCameraAnimation :: "('f, 'd) Simulator \<Rightarrow> 'f Animation \<Rightarrow> ('f, 'd) Simulator" where
  "setCameraAnimation s animation =
     s\<lparr>m_cameraAnimation := animation, m_recreateTimestamps := True\<rparr>"

definition setScene :: "('f, 'd) Simulator \<Rightarrow> 'f Scene \<Rightarrow> ('f, 'd) Simulator" where
  "setScene s sc =
     s\<lparr>m_scene := sc, m_recreateShaders := True, m_recreateTimestamps := True,
       m_recreateOutput := True\<rparr>"

definition setChipTiming :: "('f, 'd) Simulator \<Rightarrow> 'd ChipTiming \<Rightarrow> ('f, 'd) Simulator" where
  "setChipTiming s ct = s\<lparr>m_chipTiming := ct, m_recreateTimestamps := True\<rparr>"

text \<open>\<open>setProjection\<close>: the projection itself is not part of the model.\<close>

definition setProjection :: "('f, 'd) Simulator \<Rightarrow> ('f, 'd) Simulator" where
  "setProjection s = s\<lparr>m_recreateOutput := True\<rparr>"

definition setPipeline :: "('f, 'd) Simulator \<Rightarrow> 'f Pipeline \<Rightarrow> ('f, 'd) Simulator" where
  "setPipeline s pl = s\<lparr>m_pipeline := pl, m_recreateShaders := True, m_recreateOutput := True\<rparr>"

definition setOutput :: "('f, 'd) Simulator \<Rightarrow> Output \<Rightarrow> ('f, 'd) Simulator" where
  "setOutput s out = s\<lparr>m_output := out, m_recreateShaders := True, m_recreateOutput := True\<rparr>"

subsection \<open>The time stamp schedule\<close>

definition subFrames :: "('f, 'd) Simulator \<Rightarrow> int" where
  "subFrames s = (if pmd (m_output s) then 4 else 1)"

text \<open>The body of the two \<open>for\<close> loops of \<open>recreateTimestampsIfNecessary\<close>, on the pair
  \<open>(_startTimestamp, _endTimestamp)\<close>.\<close>

definition extendTimestamps :: "'f Animation \<Rightarrow> int \<times> int \<Rightarrow> int \<times> int" where
  "extendTimestamps a se =
     (if startTime a < fst se then startTime a else fst se,
      if endTime a > snd se then endTime a else snd se)"

definition recreateTimestampsIfNecessary :: "('f, 'd) Simulator \<Rightarrow> ('f, 'd) Simulator" where
  "recreateTimestampsIfNecessary s =
     (if \<not> m_recreateTimestamps s then s
      else
        let se0 = (startTime (m_cameraAnimation s), endTime (m_cameraAnimation s));
            se1 = fold extendTimestamps (lightAnimations (m_scene s)) se0;
            se2 = fold extendTimestamps (objectAnimations (m_scene s)) se1
        in s\<lparr>m_startTimestamp := fst se2, m_endTimestamp := snd se2,
             m_haveLastFrameTimestamp := False, m_recreateTimestamps := False\<rparr>)"

text \<open>A member function that returns a value and changes the simulator returns the
  pair of the value and the new state.\<close>

definition startTimestamp :: "('f, 'd) Simulator \<Rightarrow> int \<times> ('f, 'd) Simulator" where
  "startTimestamp s =
     (let s' = recreateTimestampsIfNecessary s in (m_startTimestamp s', s'))"

definition endTimestamp :: "('f, 'd) Simulator \<Rightarrow> int \<times> ('f, 'd) Simulator" where
  "endTimestamp s =
     (let s' = recreateTimestampsIfNecessary s in (m_endTimestamp s', s'))"

text \<open>\<open>return _chipTiming.subFrameDuration() * 1e6;\<close> converted to \<open>long long\<close>. The
  literal \<open>1e6\<close> is the conversion of the integer 1000000.\<close>

definition subFrameDuration ::
  "('d::{plus,times}) DoubleOps \<Rightarrow> ('f, 'd) Simulator \<Rightarrow> int" where
  "subFrameDuration dop s =
     ll_of_double dop (ChipTiming_subFrameDuration (m_chipTiming s) * double_of_ll dop 1000000)"

text \<open>\<open>return subFrameDuration() * subFrames() + _chipTiming.pauseTime * 1e6;\<close>: the
  product is a \<open>long long\<close>, the sum a \<open>double\<close>, the result a \<open>long long\<close>.\<close>

definition frameDuration ::
  "('d::{plus,times}) DoubleOps \<Rightarrow> ('f, 'd) Simulator \<Rightarrow> int" where
  "frameDuration dop s =
     ll_of_double dop
       (double_of_ll dop (subFrameDuration dop s * subFrames s)
          + pauseTime (m_chipTiming s) * double_of_ll dop 1000000)"

definition nextFrameTimestamp ::
  "('d::{plus,times}) DoubleOps \<Rightarrow> ('f, 'd) Simulator \<Rightarrow> int \<times> ('f, 'd) Simulator" where
  "nextFrameTimestamp dop s =
     (let s' = recreateTimestampsIfNecessary s in
        if m_haveLastFrameTimestamp s' then (m_lastFrameTimestamp s' + frameDuration dop s', s')
        else startTimestamp s')"



subsection \<open>Resolving the configuration\<close>

text \<open>The sanity checks of \<open>recreateShadersIfNecessary\<close>, in the order of the source;
  the result is the message of the first check that fails.\<close>

definition sanityChecks :: "('f, 'd) Simulator \<Rightarrow> string option" where
  "sanityChecks s =
     (if int (length (lights (m_scene s))) < 1 then Some ''No lights in scene''
      else if length (lights (m_scene s)) \<noteq> length (lightAnimations (m_scene s))
        then Some ''Invalid number of light animations in scene''
      else if length (objects (m_scene s)) \<noteq> length (objectAnimations (m_scene s))
        then Some ''Invalid number of object animations in scene''
      else if fst (spatialSamples (m_pipeline s)) < 1
            \<or> fst (spatialSamples (m_pipeline s)) smod 2 \<noteq> 1
            \<or> snd (spatialSamples (m_pipeline s)) < 1
            \<or> snd (spatialSamples (m_pipeline s)) smod 2 \<noteq> 1
        then Some ''Invalid number of spatial samples in pipeline configuration''
      else if length (spatialSampleWeights (m_pipeline s)) > 0
            \<and> int (length (spatialSampleWeights (m_pipeline s)))
                \<noteq> fst (spatialSamples (m_pipeline s)) * snd (spatialSamples (m_pipeline s))
        then Some ''Invalid number of spatial sample weights in pipeline configuration''
      else if temporalSamples (m_pipeline s) < 1
        then Some ''Invalid number of temporal samples in pipeline configuration''
      else if preprocLensDistortion (m_pipeline s) \<and> postprocLensDistortion (m_pipeline s)
        then Some ''Cannot enable both preproc and postproc lens distortion''
      else if postprocLensDistortion (m_pipeline s)
            \<and> (indices (m_output s) \<or> forwardFlow3D (m_output s) \<or> forwardFlow2D (m_output s)
                 \<or> backwardFlow3D (m_output s) \<or> backwardFlow2D (m_output s))
        then Some ''Postproc lens distortion cannot be applied to indices, flow3d, flow2D outputs''
      else None)"

text \<open>The programs that are linked with a check of the result, in the order of the
  source; the result is the message of the first link that fails.\<close>

definition linkPrograms :: "GL \<Rightarrow> ('f, 'd) Simulator \<Rightarrow> string option" where
  "linkPrograms g s =
     (if shadowMaps (m_pipeline s) \<and> \<not> link g ShadowMapPrg
        then Some ''Cannot link shadow map program''
      else if reflectiveShadowMaps (m_pipeline s) \<and> \<not> link g ReflectiveShadowMapPrg
        then Some ''Cannot link reflective shadow map program''
      else if \<not> link g DepthPrg then Some ''Cannot link depth simulation program''
      else if (rgb (m_output s) \<or> pmd (m_output s)) \<and> \<not> link g LightPrg
        then Some ''Cannot link light simulation program''
      else if (eyeSpacePositions (m_output s) \<or> customSpacePositions (m_output s)
               \<or> eyeSpaceNormals (m_output s) \<or> customSpaceNormals (m_output s)
               \<or> depthAndRange (m_output s) \<or> indices (m_output s)) \<and> \<not> link g GeomPrg
        then Some ''Cannot link geometry simulation program''
      else if (forwardFlow3D (m_output s) \<or> forwardFlow2D (m_output s)
               \<or> backwardFlow3D (m_output s) \<or> backwardFlow2D (m_output s)) \<and> \<not> link g FlowPrg
        then Some ''Cannot link flow simulation program''
      else if postprocLensDistortion (m_pipeline s) \<and> \<not> link g PostprocLensDistortionPrg
        then Some ''Cannot link postproc lens distortion program''
      else None)"

definition recreateShadersIfNecessary ::
  "GL \<Rightarrow> ('f, 'd) Simulator \<Rightarrow> error + ('f, 'd) Simulator" where
  "recreateShadersIfNecessary g s =
     (if \<not> m_recreateShaders s then Inr s
      else
        (case sanityChecks s of
           Some msg \<Rightarrow> Inl (Fatal msg)
         | None \<Rightarrow>
             (case linkPrograms g s of
                Some msg \<Rightarrow> Inl (Fatal msg)
              | None \<Rightarrow> Inr (s\<lparr>m_haveLastFrameTimestamp := False, m_recreateShaders := False\<rparr>))))"

text \<open>\<open>recreateOutputIfNecessary\<close>: all result vectors are cleared and then resized as
  the output configuration asks; \<open>resize\<close> fills with default-constructed values.\<close>

definition recreateOutputIfNecessary ::
  "GL \<Rightarrow> ('f::{zero,one}, 'd) Simulator \<Rightarrow> ('f, 'd) Simulator" where
  "recreateOutputIfNecessary g s =
     (if \<not> m_recreateOutput s then s
      else
        let n = subFrames s;
            extra = (if subFrames s > 1 then 1 else 0);
            out = m_output s
        in s\<lparr>m_timestamps := replicate (nat n) 0,
             m_cameraTransformations := replicate (nat n) Transformation_default,
             m_lightTransformations :=
               replicate (nat n) (replicate (length (lights (m_scene s))) Transformation_default),
             m_objectTransformations :=
               replicate (nat n) (replicate (length (objects (m_scene s))) Transformation_default),
             m_shadowMapDepthBufs :=
               (if shadowMaps (m_pipeline s)
                then glGenCubeTextures g ''_shadowMapDepthBufs'' n (lights (m_scene s)) shadowMap
                else []),
             m_reflectiveShadowMapTexs :=
               (if reflectiveShadowMaps (m_pipeline s)
                then glGenCubeTextures g ''_reflectiveShadowMapTexs'' n (lights (m_scene s))
                       reflectiveShadowMap
                else []),
             m_pmdCoordinatesTex :=
               (if pmd out \<and> pmdCoordinates out then texture g ''_pmdCoordinatesTex'' 0 else 0),
             m_depthBuffers := glGenTextures g ''_depthBuffers'' (n + 1),
             m_rgbTexs := (if rgb out then glGenTextures g ''_rgbTexs'' (n + extra) else []),
             m_srgbTexs :=
               (if rgb out \<and> srgb out then glGenTextures g ''_srgbTexs'' (n + extra) else []),
             m_pmdDigNumTexs :=
               (if pmd out then glGenTextures g ''_pmdDigNumTexs'' (n + extra) else []),
             m_eyeSpacePosTexs :=
               (if eyeSpacePositions out then glGenTextures g ''_eyeSpacePosTexs'' n else []),
             m_customSpacePosTexs :=
               (if customSpacePositions out then glGenTextures g ''_customSpacePosTexs'' n else []),
             m_eyeSpaceNormalTexs :=
               (if eyeSpaceNormals out then glGenTextures g ''_eyeSpaceNormalTexs'' n else []),
             m_customSpaceNormalTexs :=
               (if customSpaceNormals out then glGenTextures g ''_customSpaceNormalTexs'' n
                else []),
             m_depthAndRangeTexs :=
               (if depthAndRange out then glGenTextures g ''_depthAndRangeTexs'' n else []),
             m_indicesTexs := (if indices out then glGenTextures g ''_indicesTexs'' n else []),
             m_forwardFlow3DTexs :=
               (if forwardFlow3D out then glGenTextures g ''_forwardFlow3DTexs'' (n + extra)
                else []),
             m_forwardFlow2DTexs :=
               (if forwardFlow2D out then glGenTextures g ''_forwardFlow2DTexs'' (n + extra)
                else []),
             m_backwardFlow3DTexs :=
               (if backwardFlow3D out then glGenTextures g ''_backwardFlow3DTexs'' (n + extra)
                else []),
             m_backwardFlow2DTexs :=
               (if backwardFlow2D out then glGenTextures g ''_backwardFlow2DTexs'' (n + extra)
                else []),
             m_haveLastFrameTimestamp := False,
             m_recreateOutput := False\<rparr>)"

subsection \<open>Simulating a frame\<close>

text \<open>The loop \<open>for (i = 0; i < n; i++) transformations[i] = animations[i].interpolate(t)\<close>
  of \<open>simulateSampleTimestamp\<close>, its body first.\<close>

definition interpolateAt ::
  "('f::{zero,one,plus,minus,times,inverse}) FloatOps \<Rightarrow> 'f Animation list \<Rightarrow> int \<Rightarrow> nat
     \<Rightarrow> error + 'f Transformation list \<Rightarrow> error + 'f Transformation list" where
  "interpolateAt fo animations ts i r =
     (case r of
        Inl e \<Rightarrow> Inl e
      | Inr transformations \<Rightarrow>
          (case QList_at animations (int i) of
             Inl e \<Rightarrow> Inl e
           | Inr animation \<Rightarrow>
               (case interpolate fo animation ts of
                  Inl e \<Rightarrow> Inl e
                | Inr tr \<Rightarrow>
                    if i < length transformations then Inr (transformations[i := tr])
                    else Inl IndexOutOfRange)))"

definition interpolateAll ::
  "('f::{zero,one,plus,minus,times,inverse}) FloatOps \<Rightarrow> 'f Animation list \<Rightarrow> int \<Rightarrow> nat
     \<Rightarrow> 'f Transformation list \<Rightarrow> error + 'f Transformation list" where
  "interpolateAll fo animations ts n transformations =
     fold (interpolateAt fo animations ts) [0..<n] (Inr transformations)"

text \<open>\<open>simulateSampleTimestamp\<close>: the three reference parameters are the triple.\<close>

definition simulateSampleTimestamp ::
  "('f::{zero,one,plus,minus,times,inverse}) FloatOps \<Rightarrow> ('f, 'd) Simulator \<Rightarrow> int
     \<Rightarrow> 'f Transformation \<times> 'f Transformation list \<times> 'f Transformation list
     \<Rightarrow> error + ('f Transformation \<times> 'f Transformation list \<times> 'f Transformation list)" where
  "simulateSampleTimestamp fo s ts refs =
     (case interpolate fo (m_cameraAnimation s) ts of
        Inl e \<Rightarrow> Inl e
      | Inr cameraTransformation \<Rightarrow>
          (case interpolateAll fo (lightAnimations (m_scene s)) ts (length (lights (m_scene s)))
                  (fst (snd refs)) of
             Inl e \<Rightarrow> Inl e
           | Inr lightTransformations \<Rightarrow>
               (case interpolateAll fo (objectAnimations (m_scene s)) ts
                       (length (objects (m_scene s))) (snd (snd refs)) of
                  Inl e \<Rightarrow> Inl e
                | Inr objectTransformations \<Rightarrow>
                    Inr (cameraTransformation, lightTransformations, objectTransformations))))"

text \<open>The body of the loop over the sub-frames in \<open>simulateTimestamps\<close>.\<close>

definition simulateTimestampsAt ::
  "('f::{zero,one,plus,minus,times,inverse}, 'd::{plus,times}) Platform \<Rightarrow> int \<Rightarrow> nat
     \<Rightarrow> error + ('f, 'd) Simulator \<Rightarrow> error + ('f, 'd) Simulator" where
  "simulateTimestampsAt pf ts subFrame r =
     (case r of
        Inl e \<Rightarrow> Inl e
      | Inr s \<Rightarrow>
          if \<not> subFrame < length (m_timestamps s) then Inl IndexOutOfRange
          else
            let t_sub = (if subFrameTemporalSampling (m_pipeline s)
                         then ts + int subFrame * subFrameDuration (dops pf) s else ts);
                s1 = s\<lparr>m_timestamps := (m_timestamps s)[subFrame := t_sub]\<rparr>
            in
              (case QList_at (m_cameraTransformations s1) (int subFrame) of
                 Inl e \<Rightarrow> Inl e
               | Inr c \<Rightarrow>
                   (case QList_at (m_lightTransformations s1) (int subFrame) of
                      Inl e \<Rightarrow> Inl e
                    | Inr l \<Rightarrow>
                        (case QList_at (m_objectTransformations s1) (int subFrame) of
                           Inl e \<Rightarrow> Inl e
                         | Inr ob \<Rightarrow>
                             (case simulateSampleTimestamp (fops pf) s1 t_sub (c, l, ob) of
                                Inl e \<Rightarrow> Inl e
                              | Inr res \<Rightarrow>
                                  Inr (s1\<lparr>m_cameraTransformations :=
                                             (m_cameraTransformations s1)[subFrame := fst res],
                                           m_lightTransformations :=
                                             (m_lightTransformations s1)
                                               [subFrame := fst (snd res)],
                                           m_objectTransformations :=
                                             (m_objectTransformations s1)
                                               [subFrame := snd (snd res)]\<rparr>))))))"

definition simulateTimestamps ::
  "('f::{zero,one,plus,minus,times,inverse}, 'd::{plus,times}) Platform \<Rightarrow> ('f, 'd) Simulator
     \<Rightarrow> int \<Rightarrow> error + ('f, 'd) Simulator" where
  "simulateTimestamps pf s ts =
     fold (simulateTimestampsAt pf ts) [0..<nat (subFrames s)] (Inr s)"

text \<open>
  \<open>Simulator::simulate(frameTimestamp)\<close>. Between \<open>simulateTimestamps\<close> and the last two
  assignments the source runs the render passes; they write GPU textures and none of the
  members modelled here, and they are taken to complete.
\<close>

definition simulate ::
  "('f::{zero,one,plus,minus,times,inverse}, 'd::{plus,times}) Platform \<Rightarrow> ('f, 'd) Simulator
     \<Rightarrow> int \<Rightarrow> error + ('f, 'd) Simulator" where
  "simulate pf s frameTimestamp =
     (case recreateShadersIfNecessary (gl pf) s of
        Inl e \<Rightarrow> Inl e
      | Inr s1 \<Rightarrow>
          (case simulateTimestamps pf (recreateOutputIfNecessary (gl pf) s1) frameTimestamp of
             Inl e \<Rightarrow> Inl e
           | Inr s3 \<Rightarrow>
               Inr (s3\<lparr>m_lastFrameTimestamp := frameTimestamp,
                        m_haveLastFrameTimestamp := True\<rparr>)))"



section \<open>Retrieving simulation results (simulator.cpp)\<close>

definition getTimestamp :: "('f, 'd) Simulator \<Rightarrow> int \<Rightarrow> error + int" where
  "getTimestamp s i =
     (if \<not> m_haveLastFrameTimestamp s \<or> i < - 1 \<or> i \<ge> subFrames s then Inr 0
      else QList_at (m_timestamps s) (if i < 0 then 0 else i))"

definition haveValidOutput :: "('f, 'd) Simulator \<Rightarrow> int \<Rightarrow> bool" where
  "haveValidOutput s i =
     (\<not> m_recreateOutput s \<and> m_haveLastFrameTimestamp s \<and> i \<ge> - 1 \<and> i < subFrames s)"

definition haveShadowMap :: "('f, 'd) Simulator \<Rightarrow> int \<Rightarrow> bool" where
  "haveShadowMap s lightIndex =
     (shadowMaps (m_pipeline s) \<and> lightIndex \<ge> 0 \<and> lightIndex < int (length (lights (m_scene s)))
      \<and> shadowMap (lights (m_scene s) ! nat lightIndex))"

definition haveReflectiveShadowMap :: "('f, 'd) Simulator \<Rightarrow> int \<Rightarrow> bool" where
  "haveReflectiveShadowMap s lightIndex =
     (reflectiveShadowMaps (m_pipeline s) \<and> lightIndex \<ge> 0
      \<and> lightIndex < int (length (lights (m_scene s)))
      \<and> reflectiveShadowMap (lights (m_scene s) ! nat lightIndex))"

text \<open>\<open>QVector::last()\<close> fails on an empty vector.\<close>

definition QVector_last :: "'a list \<Rightarrow> error + 'a" where
  "QVector_last xs = (if xs = [] then Inl IndexOutOfRange else Inr (last xs))"

text \<open>The expressions \<open>i == -1 ? v.last() : v[i]\<close>, \<open>i == -1 ? v[0] : v[i]\<close> and
  \<open>v[i][j]\<close> of the accessors.\<close>

definition lastOrAt :: "'a list \<Rightarrow> int \<Rightarrow> error + 'a" where
  "lastOrAt v i = (if i = - 1 then QVector_last v else QList_at v i)"

definition firstOrAt :: "'a list \<Rightarrow> int \<Rightarrow> error + 'a" where
  "firstOrAt v i = (if i = - 1 then QList_at v 0 else QList_at v i)"

definition QVector_at2 :: "'a list list \<Rightarrow> int \<Rightarrow> int \<Rightarrow> error + 'a" where
  "QVector_at2 v i j = (case QList_at v i of Inl e \<Rightarrow> Inl e | Inr row \<Rightarrow> QList_at row j)"

definition getShadowMapCubeTex :: "('f, 'd) Simulator \<Rightarrow> int \<Rightarrow> int \<Rightarrow> error + 32 word" where
  "getShadowMapCubeTex s lightIndex i =
     (if haveValidOutput s i \<and> haveShadowMap s lightIndex
      then (if i = - 1 then QVector_at2 (m_shadowMapDepthBufs s) 0 lightIndex
            else QVector_at2 (m_shadowMapDepthBufs s) i lightIndex)
      else Inr 0)"

definition getReflectiveShadowMapCubeArrayTex ::
  "('f, 'd) Simulator \<Rightarrow> int \<Rightarrow> int \<Rightarrow> error + 32 word" where
  "getReflectiveShadowMapCubeArrayTex s lightIndex i =
     (if haveValidOutput s i \<and> haveReflectiveShadowMap s lightIndex
      then (if i = - 1 then QVector_at2 (m_reflectiveShadowMapTexs s) 0 lightIndex
            else QVector_at2 (m_reflectiveShadowMapTexs s) i lightIndex)
      else Inr 0)"

definition spatialOversampling :: "('f, 'd) Simulator \<Rightarrow> bool" where
  "spatialOversampling s =
     (fst (spatialSamples (m_pipeline s)) > 1 \<or> snd (spatialSamples (m_pipeline s)) > 1)"

definition temporalOversampling :: "('f, 'd) Simulator \<Rightarrow> bool" where
  "temporalOversampling s = (temporalSamples (m_pipeline s) > 1)"

text \<open>The condition under which \<open>getDepthTex\<close> has depth data.\<close>

definition haveDepth :: "('f, 'd) Simulator \<Rightarrow> bool" where
  "haveDepth s =
     ((\<not> spatialOversampling s \<and> \<not> temporalOversampling s)
      \<or> eyeSpacePositions (m_output s) \<or> customSpacePositions (m_output s)
      \<or> eyeSpaceNormals (m_output s) \<or> customSpaceNormals (m_output s)
      \<or> depthAndRange (m_output s) \<or> indices (m_output s)
      \<or> forwardFlow3D (m_output s) \<or> forwardFlow2D (m_output s)
      \<or> backwardFlow3D (m_output s) \<or> backwardFlow2D (m_output s))"

definition getDepthTex :: "('f, 'd) Simulator \<Rightarrow> int \<Rightarrow> error + 32 word" where
  "getDepthTex s i =
     (if haveDepth s \<and> haveValidOutput s i then firstOrAt (m_depthBuffers s) i else Inr 0)"

definition getRGBTex :: "('f, 'd) Simulator \<Rightarrow> int \<Rightarrow> error + 32 word" where
  "getRGBTex s i =
     (if rgb (m_output s) \<and> haveValidOutput s i then lastOrAt (m_rgbTexs s) i else Inr 0)"

definition getSRGBTex :: "('f, 'd) Simulator \<Rightarrow> int \<Rightarrow> error + 32 word" where
  "getSRGBTex s i =
     (if rgb (m_output s) \<and> srgb (m_output s) \<and> haveValidOutput s i then lastOrAt (m_srgbTexs s) i else Inr 0)"

definition getPMDTex :: "('f, 'd) Simulator \<Rightarrow> int \<Rightarrow> error + 32 word" where
  "getPMDTex s i =
     (if pmd (m_output s) \<and> haveValidOutput s i then lastOrAt (m_pmdDigNumTexs s) i else Inr 0)"

definition getEyeSpacePositionsTex :: "('f, 'd) Simulator \<Rightarrow> int \<Rightarrow> error + 32 word" where
  "getEyeSpacePositionsTex s i =
     (if eyeSpacePositions (m_output s) \<and> haveValidOutput s i then firstOrAt (m_eyeSpacePosTexs s) i else Inr 0)"

definition getCustomSpacePositionsTex :: "('f, 'd) Simulator \<Rightarrow> int \<Rightarrow> error + 32 word" where
  "getCustomSpacePositionsTex s i =
     (if customSpacePositions (m_output s) \<and> haveValidOutput s i then firstOrAt (m_customSpacePosTexs s) i else Inr 0)"

definition getEyeSpaceNormalsTex :: "('f, 'd) Simulator \<Rightarrow> int \<Rightarrow> error + 32 word" where
  "getEyeSpaceNormalsTex s i =
     (if eyeSpaceNormals (m_output s) \<and> haveValidOutput s i then firstOrAt (m_eyeSpaceNormalTexs s) i else Inr 0)"

definition getCustomSpaceNormalsTex :: "('f, 'd) Simulator \<Rightarrow> int \<Rightarrow> error + 32 word" where
  "getCustomSpaceNormalsTex s i =
     (if customSpaceNormals (m_output s) \<and> haveValidOutput s i then firstOrAt (m_customSpaceNormalTexs s) i else Inr 0)"

definition getDepthAndRangeTex :: "('f, 'd) Simulator \<Rightarrow> int \<Rightarrow> error + 32 word" where
  "getDepthAndRangeTex s i =
     (if depthAndRange (m_output s) \<and> haveValidOutput s i then firstOrAt (m_depthAndRangeTexs s) i else Inr 0)"

definition getIndicesTex :: "('f, 'd) Simulator \<Rightarrow> int \<Rightarrow> error + 32 word" where
  "getIndicesTex s i =
     (if indices (m_output s) \<and> haveValidOutput s i then firstOrAt (m_indicesTexs s) i else Inr 0)"

definition getForwardFlow3DTex :: "('f, 'd) Simulator \<Rightarrow> int \<Rightarrow> error + 32 word" where
  "getForwardFlow3DTex s i =
     (if forwardFlow3D (m_output s) \<and> haveValidOutput s i then lastOrAt (m_forwardFlow3DTexs s) i else Inr 0)"

definition getForwardFlow2DTex :: "('f, 'd) Simulator \<Rightarrow> int \<Rightarrow> error + 32 word" where
  "getForwardFlow2DTex s i =
     (if forwardFlow2D (m_output s) \<and> haveValidOutput s i then lastOrAt (m_forwardFlow2DTexs s) i else Inr 0)"

definition getBackwardFlow3DTex :: "('f, 'd) Simulator \<Rightarrow> int \<Rightarrow> error + 32 word" where
  "getBackwardFlow3DTex s i =
     (if backwardFlow3D (m_output s) \<and> haveValidOutput s i then lastOrAt (m_backwardFlow3DTexs s) i else Inr 0)"

definition getBackwardFlow2DTex :: "('f, 'd) Simulator \<Rightarrow> int \<Rightarrow> error + 32 word" where
  "getBackwardFlow2DTex s i =
     (if backwardFlow2D (m_output s) \<and> haveValidOutput s i then lastOrAt (m_backwardFlow2DTexs s) i else Inr 0)"

definition getPMDCoordinatesTex :: "('f, 'd) Simulator \<Rightarrow> 32 word" where
  "getPMDCoordinatesTex s =
     (if pmd (m_output s) \<and> pmdCoordinates (m_output s) \<and> haveValidOutput s (- 1)
      then m_pmdCoordinatesTex s else 0)"

text \<open>\<open>static const Transformation NullTransformation;\<close>\<close>

definition NullTransformation :: "'f::{zero,one} Transformation" where
  "NullTransformation = Transformation_default"

definition getCameraTransformation ::
  "('f::{zero,one}, 'd) Simulator \<Rightarrow> int \<Rightarrow> error + 'f Transformation" where
  "getCameraTransformation s i =
     (if haveValidOutput s i then firstOrAt (m_cameraTransformations s) i
      else Inr NullTransformation)"

definition getLightTransformation ::
  "('f::{zero,one}, 'd) Simulator \<Rightarrow> int \<Rightarrow> int \<Rightarrow> error + 'f Transformation" where
  "getLightTransformation s lightIndex i =
     (if lightIndex \<ge> 0 \<and> lightIndex < int (length (lights (m_scene s))) \<and> haveValidOutput s i
      then (if i = - 1 then QVector_at2 (m_lightTransformations s) lightIndex 0
            else QVector_at2 (m_lightTransformations s) lightIndex i)
      else Inr NullTransformation)"

definition getObjectTransformation ::
  "('f::{zero,one}, 'd) Simulator \<Rightarrow> int \<Rightarrow> int \<Rightarrow> error + 'f Transformation" where
  "getObjectTransformation s objectIndex i =
     (if objectIndex \<ge> 0 \<and> objectIndex < int (length (objects (m_scene s)))
         \<and> haveValidOutput s i
      then (if i = - 1 then QVector_at2 (m_objectTransformations s) objectIndex 0
            else QVector_at2 (m_objectTransformations s) objectIndex i)
      else Inr NullTransformation)"

text \<open>The texture accessors that take a sub-frame index, as one family: the accessor
  of each kind and the condition under which the source has its output.\<close>

datatype OutputKind =
  ShadowMapCube int | ReflectiveShadowMapCubeArray int | Depth | RGB | SRGB | PMD
  | EyeSpacePositions | CustomSpacePositions | EyeSpaceNormals | CustomSpaceNormals
  | DepthAndRange | Indices | ForwardFlow3D | ForwardFlow2D | BackwardFlow3D | BackwardFlow2D

fun getTex :: "OutputKind \<Rightarrow> ('f, 'd) Simulator \<Rightarrow> int \<Rightarrow> error + 32 word" where
  "getTex (ShadowMapCube l) s i = getShadowMapCubeTex s l i"
| "getTex (ReflectiveShadowMapCubeArray l) s i = getReflectiveShadowMapCubeArrayTex s l i"
| "getTex Depth s i = getDepthTex s i"
| "getTex RGB s i = getRGBTex s i"
| "getTex SRGB s i = getSRGBTex s i"
| "getTex PMD s i = getPMDTex s i"
| "getTex EyeSpacePositions s i = getEyeSpacePositionsTex s i"
| "getTex CustomSpacePositions s i = getCustomSpacePositionsTex s i"
| "getTex EyeSpaceNormals s i = getEyeSpaceNormalsTex s i"
| "getTex CustomSpaceNormals s i = getCustomSpaceNormalsTex s i"
| "getTex DepthAndRange s i = getDepthAndRangeTex s i"
| "getTex Indices s i = getIndicesTex s i"
| "getTex ForwardFlow3D s i = getForwardFlow3DTex s i"
| "getTex ForwardFlow2D s i = getForwardFlow2DTex s i"
| "getTex BackwardFlow3D s i = getBackwardFlow3DTex s i"
| "getTex BackwardFlow2D s i = getBackwardFlow2DTex s i"

fun outputEnabled :: "OutputKind \<Rightarrow> ('f, 'd) Simulator \<Rightarrow> bool" where
  "outputEnabled (ShadowMapCube l) s = haveShadowMap s l"
| "outputEnabled (ReflectiveShadowMapCubeArray l) s = haveReflectiveShadowMap s l"
| "outputEnabled Depth s = haveDepth s"
| "outputEnabled RGB s = rgb (m_output s)"
| "outputEnabled SRGB s = (rgb (m_output s) \<and> srgb (m_output s))"
| "outputEnabled PMD s = pmd (m_output s)"
| "outputEnabled EyeSpacePositions s = eyeSpacePositions (m_output s)"
| "outputEnabled CustomSpacePositions s = customSpacePositions (m_output s)"
| "outputEnabled EyeSpaceNormals s = eyeSpaceNormals (m_output s)"
| "outputEnabled CustomSpaceNormals s = customSpaceNormals (m_output s)"
| "outputEnabled DepthAndRange s = depthAndRange (m_output s)"
| "outputEnabled Indices s = indices (m_output s)"
| "outputEnabled ForwardFlow3D s = forwardFlow3D (m_output s)"
| "outputEnabled ForwardFlow2D s = forwardFlow2D (m_output s)"
| "outputEnabled BackwardFlow3D s = backwardFlow3D (m_output s)"
| "outputEnabled BackwardFlow2D s = backwardFlow2D (m_output s)"



section \<open>The frame loop of the example programs (camsim-flow.cpp)\<close>

text \<open>
  \<open>for (t = startTimestamp(); t < endTimestamp(); t = nextFrameTimestamp()) simulate(t);\<close>
  The loop need not end (a frame duration of 0 repeats the same time stamp), so not
  returning is the value \<open>None\<close>. The result is the list of the time stamps that were
  simulated, with the final state, or the failure that ended the process.
\<close>

partial_function (option) frameLoop_from ::
  "('f::{zero,one,plus,minus,times,inverse}, 'd::{plus,times}) Platform \<Rightarrow> ('f, 'd) Simulator
     \<Rightarrow> int \<Rightarrow> int list \<Rightarrow> (error + int list \<times> ('f, 'd) Simulator) option" where
  "frameLoop_from pf s ts frames =
     (if ts < fst (endTimestamp s) then
        (case simulate pf (snd (endTimestamp s)) ts of
           Inl e \<Rightarrow> Some (Inl e)
         | Inr s' \<Rightarrow>
             frameLoop_from pf (snd (nextFrameTimestamp (dops pf) s'))
               (fst (nextFrameTimestamp (dops pf) s')) (frames @ [ts]))
      else Some (Inr (frames, snd (endTimestamp s))))"

definition frameLoop ::
  "('f::{zero,one,plus,minus,times,inverse}, 'd::{plus,times}) Platform \<Rightarrow> ('f, 'd) Simulator
     \<Rightarrow> (error + int list \<times> ('f, 'd) Simulator) option" where
  "frameLoop pf s = frameLoop_from pf (snd (startTimestamp s)) (fst (startTimestamp s)) []"


section \<open>Reachable simulator states\<close>

text \<open>The states a program can bring a simulator into: it constructs it and calls the
  setters, the time stamp queries and \<open>simulate\<close> (where that returns).\<close>

inductive reachable ::
  "('f::{zero,one,plus,minus,times,inverse}, 'd::{zero,one,plus,times,inverse}) Platform
     \<Rightarrow> ('f, 'd) Simulator \<Rightarrow> bool"
  for pf :: "('f::{zero,one,plus,minus,times,inverse}, 'd::{zero,one,plus,times,inverse}) Platform"
  where
  r_new: "reachable pf (Simulator_new (dops pf) u_start u_end u_have u_last)"
| r_setCameraAnimation: "reachable pf s \<Longrightarrow> reachable pf (setCameraAnimation s animation)"
| r_setScene: "reachable pf s \<Longrightarrow> reachable pf (setScene s sc)"
| r_setChipTiming: "reachable pf s \<Longrightarrow> reachable pf (setChipTiming s ct)"
| r_setProjection: "reachable pf s \<Longrightarrow> reachable pf (setProjection s)"
| r_setPipeline: "reachable pf s \<Longrightarrow> reachable pf (setPipeline s pl)"
| r_setOutput: "reachable pf s \<Longrightarrow> reachable pf (setOutput s out)"
| r_startTimestamp: "reachable pf s \<Longrightarrow> reachable pf (snd (startTimestamp s))"
| r_endTimestamp: "reachable pf s \<Longrightarrow> reachable pf (snd (endTimestamp s))"
| r_nextFrameTimestamp: "reachable pf s \<Longrightarrow> reachable pf (snd (nextFrameTimestamp (dops pf) s))"
| r_simulate: "reachable pf s \<Longrightarrow> simulate pf s ts = Inr s' \<Longrightarrow> reachable pf s'"


text \<open>The states in which \<open>simulate\<close> has not been called yet.\<close>

inductive never_simulated ::
  "('d::{zero,one,plus,times,inverse}) DoubleOps \<Rightarrow> ('f, 'd) Simulator \<Rightarrow> bool"
  for dop :: "('d::{zero,one,plus,times,inverse}) DoubleOps"
  where
  n_new: "never_simulated dop (Simulator_new dop u_start u_end u_have u_last)"
| n_setCameraAnimation: "never_simulated dop s \<Longrightarrow> never_simulated dop (setCameraAnimation s animation)"
| n_setScene: "never_simulated dop s \<Longrightarrow> never_simulated dop (setScene s sc)"
| n_setChipTiming: "never_simulated dop s \<Longrightarrow> never_simulated dop (setChipTiming s ct)"
| n_setProjection: "never_simulated dop s \<Longrightarrow> never_simulated dop (setProjection s)"
| n_setPipeline: "never_simulated dop s \<Longrightarrow> never_simulated dop (setPipeline s pl)"
| n_setOutput: "never_simulated dop s \<Longrightarrow> never_simulated dop (setOutput s out)"
| n_startTimestamp: "never_simulated dop s \<Longrightarrow> never_simulated dop (snd (startTimestamp s))"
| n_endTimestamp: "never_simulated dop s \<Longrightarrow> never_simulated dop (snd (endTimestamp s))"
| n_nextFrameTimestamp: "never_simulated dop s \<Longrightarrow> never_simulated dop (snd (nextFrameTimestamp dop s))"

text \<open>All animations of a simulator: of the camera, of the lights, of the objects.\<close>

definition animations :: "('f, 'd) Simulator \<Rightarrow> 'f Animation list" where
  "animations s =
     m_cameraAnimation s # lightAnimations (m_scene s) @ objectAnimations (m_scene s)"

text \<open>The invariant of the time stamp bounds: unless they are marked for recomputation,
  the stored bounds are the minimum start time and the maximum end time of all animations.
  It depends only on the members collected by \<open>schedule_of\<close>.\<close>

definition timestamps_resolved :: "('f, 'd) Simulator \<Rightarrow> bool" where
  "timestamps_resolved s =
     (m_recreateTimestamps s
      \<or> (m_startTimestamp s = Min (set (map startTime (animations s)))
         \<and> m_endTimestamp s = Max (set (map endTime (animations s)))))"

definition schedule_of ::
  "('f, 'd) Simulator \<Rightarrow> 'f Animation \<times> 'f Scene \<times> bool \<times> int \<times> int" where
  "schedule_of s =
     (m_cameraAnimation s, m_scene s, m_recreateTimestamps s, m_startTimestamp s,
      m_endTimestamp s)"

text \<open>The members that \<open>simulate\<close> leaves as they are: the configuration and the time
  stamp bounds with their dirty flag.\<close>

definition kept_by_simulate ::
  "('f, 'd) Simulator
     \<Rightarrow> 'f Animation \<times> 'f Scene \<times> 'd ChipTiming \<times> 'f Pipeline \<times> Output \<times> bool \<times> int \<times> int" where
  "kept_by_simulate s =
     (m_cameraAnimation s, m_scene s, m_chipTiming s, m_pipeline s, m_output s,
      m_recreateTimestamps s, m_startTimestamp s, m_endTimestamp s)"


text \<open>
  The frame duration law as the specification words it: the sub-frame count times
  (exposure time + readout time) times 1e6, plus the pause time times 1e6. It is a
  floating-point number of microseconds.
\<close>

definition frameDuration_law ::
  "('d::{plus,times}) DoubleOps \<Rightarrow> ('f, 'd) Simulator \<Rightarrow> 'd" where
  "frameDuration_law dop s =
     double_of_ll dop (if pmd (m_output s) then 4 else 1)
       * (exposureTime (m_chipTiming s) + readoutTime (m_chipTiming s)) * double_of_ll dop 1000000
     + pauseTime (m_chipTiming s) * double_of_ll dop 1000000"


section \<open>A platform with exact arithmetic, and example configurations\<close>

text \<open>
  For concrete runs, \<open>float\<close> and \<open>double\<close> are the rational numbers with exact
  arithmetic; the conversion to \<open>long long\<close> truncates towards zero. Every program links,
  and the textures of a member are numbered from 1. The spherical interpolation returns
  its first argument; the runs below call it on two equal rotations only, where this is
  the value of \<open>QQuaternion::slerp\<close>.
\<close>

definition truncate_rat :: "rat \<Rightarrow> int" where
  "truncate_rat x = (if x \<ge> 0 then \<lfloor>x\<rfloor> else \<lceil>x\<rceil>)"

definition exact_platform :: "(rat, rat) Platform" where
  "exact_platform =
     \<lparr>fops = \<lparr>float_of_ll = rat_of_int, QQuaternion_slerp = (\<lambda>q0 q1 alpha. q0)\<rparr>,
      dops = \<lparr>double_of_ll = rat_of_int, ll_of_double = truncate_rat\<rparr>,
      gl = \<lparr>link = (\<lambda>p. True), texture = (\<lambda>member i. of_nat (i + 1))\<rparr>\<rparr>"

text \<open>A transformation that only translates, and the animation with one key frame at
  time 0 that holds it.\<close>

definition translate :: "rat \<Rightarrow> rat \<Rightarrow> rat \<Rightarrow> rat Transformation" where
  "translate x y z = Transformation_default\<lparr>translation := (x, y, z)\<rparr>"

definition fixed_at :: "rat Transformation \<Rightarrow> rat Animation" where
  "fixed_at tr = \<lparr>keyframes = [\<lparr>kf_t = 0, transformation = tr\<rparr>]\<rparr>"

text \<open>A key frame at the given time that translates by \<open>x\<close> along the first axis, and an
  animation with two of them.\<close>

definition key_at :: "int \<Rightarrow> rat \<Rightarrow> rat Keyframe" where
  "key_at time x = \<lparr>kf_t = time, transformation = translate x 0 0\<rparr>"

definition two_keys :: "rat Animation" where
  "two_keys = \<lparr>keyframes = [key_at 0 1, key_at 10 2]\<rparr>"

definition a_light :: Light where
  "a_light = \<lparr>shadowMap = True, reflectiveShadowMap = True\<rparr>"

text \<open>A scene with one light and no animation, as \<open>camsim-helloworld\<close> builds it.\<close>

definition scene_one_light :: "rat Scene" where
  "scene_one_light = addLight Scene_default a_light \<lparr>keyframes = []\<rparr>"

text \<open>A scene with two lights at different fixed places.\<close>

definition scene_two_lights :: "rat Scene" where
  "scene_two_lights =
     addLight (addLight Scene_default a_light (fixed_at (translate 1 0 0)))
       a_light (fixed_at (translate 0 2 0))"

text \<open>A new simulator with PMD output switched on.\<close>

definition pmd_simulator :: "(rat, rat) Simulator" where
  "pmd_simulator =
     setOutput (Simulator_new (dops exact_platform) 0 0 False 0) (Output_default\<lparr>pmd := True\<rparr>)"

text \<open>The simulators of the runs below: a new simulator with the scene of one light; one
  with the scene of two lights; one with the scene of two lights and PMD output.\<close>

definition first_simulate :: "(rat, rat) Simulator" where
  "first_simulate = setScene (Simulator_new (dops exact_platform) 0 0 False 0) scene_one_light"

definition rgb_two_lights :: "(rat, rat) Simulator" where
  "rgb_two_lights = setScene (Simulator_new (dops exact_platform) 0 0 False 0) scene_two_lights"

definition pmd_two_lights :: "(rat, rat) Simulator" where
  "pmd_two_lights =
     setOutput (setScene (Simulator_new (dops exact_platform) 0 0 False 0) scene_two_lights)
       (Output_default\<lparr>pmd := True\<rparr>)"

text \<open>A scene with one light that moves from time -5 to time 3.\<close>

definition scene_moving_light :: "rat Scene" where
  "scene_moving_light =
     addLight Scene_default a_light \<lparr>keyframes = [key_at (- 5) 1, key_at 3 2]\<rparr>"







section \<open>Basic facts\<close>

lemma QList_at_in_range: "0 \<le> i \<Longrightarrow> i < int (length xs) \<Longrightarrow> QList_at xs i = Inr (xs ! nat i)"
  by (simp add: QList_at_def)

lemma smod2_even: "even (w::int) \<Longrightarrow> w smod 2 \<noteq> 1"
  by (auto simp: signed_modulo_int_def)

lemma sdiv2_nonneg: "0 \<le> (x::int) \<Longrightarrow> x sdiv 2 = x div 2"
  by (auto simp: signed_divide_int_def sgn_if)


lemma recreate_clean [simp]:
  "\<not> m_recreateTimestamps (recreateTimestampsIfNecessary s)"
  by (simp add: recreateTimestampsIfNecessary_def Let_def)

lemma recreate_idem [simp]:
  "recreateTimestampsIfNecessary (recreateTimestampsIfNecessary s)
     = recreateTimestampsIfNecessary s"
  by (simp add: recreateTimestampsIfNecessary_def Let_def)

lemma snd_startTimestamp [simp]: "snd (startTimestamp s) = recreateTimestampsIfNecessary s"
  by (simp add: startTimestamp_def Let_def)

lemma snd_endTimestamp [simp]: "snd (endTimestamp s) = recreateTimestampsIfNecessary s"
  by (simp add: endTimestamp_def Let_def)

lemma snd_nextFrameTimestamp [simp]:
  "snd (nextFrameTimestamp dop s) = recreateTimestampsIfNecessary s"
  by (simp add: nextFrameTimestamp_def Let_def)


section \<open>The binary search on a sorted key frame list\<close>

lemma sorted_nth:
  "sorted_wrt (<) (map kf_t kfs) \<Longrightarrow> i < j \<Longrightarrow> j < length kfs \<Longrightarrow> kf_t (kfs ! i) < kf_t (kfs ! j)"
  using sorted_wrt_nth_less [of "(<)" "map kf_t kfs" i j] by simp

lemma below_step:
  assumes "sorted_wrt (<) (map kf_t kfs)" "c < length kfs" "kf_t (kfs ! c) < ts"
  shows "all_below kfs ts (Suc c)"
  unfolding all_below_def
proof (intro allI impI)
  fix i assume "i < Suc c"
  then consider "i = c" | "i < c" by linarith
  then show "kf_t (kfs ! i) < ts"
  proof cases
    case 1 with assms(3) show ?thesis by simp
  next
    case 2
    from sorted_nth [OF assms(1) 2 assms(2)] assms(3) show ?thesis by simp
  qed
qed

lemma above_step:
  assumes "sorted_wrt (<) (map kf_t kfs)" "c < length kfs" "ts < kf_t (kfs ! c)"
  shows "all_above kfs ts c"
  unfolding all_above_def
proof (intro allI impI)
  fix i assume i: "c \<le> i \<and> i < length kfs"
  then consider "i = c" | "c < i" by linarith
  then show "ts < kf_t (kfs ! i)"
  proof cases
    case 1 with assms(3) show ?thesis by simp
  next
    case 2
    with i sorted_nth [OF assms(1), of c i] assms(3) show ?thesis by simp
  qed
qed

lemma loop_sorted:
  assumes srt: "sorted_wrt (<) (map kf_t kfs)"
  shows "0 \<le> a \<Longrightarrow> b < int (length kfs) \<Longrightarrow> a \<le> b + 1 \<Longrightarrow>
         all_below kfs ts (nat a) \<Longrightarrow> all_above kfs ts (nat (b + 1)) \<Longrightarrow>
         (\<exists>c. 0 \<le> c \<and> c < int (length kfs) \<and> kf_t (kfs ! nat c) = ts
               \<and> findKeyframeIndices_loop kfs ts a b = Inr (c, c))
         \<or> (\<exists>lo. - 1 \<le> lo \<and> lo < int (length kfs) \<and> all_below kfs ts (nat (lo + 1))
               \<and> all_above kfs ts (nat (lo + 1))
               \<and> findKeyframeIndices_loop kfs ts a b = Inr (lo, lo + 1))"
  using srt
proof (induction kfs ts a b rule: findKeyframeIndices_loop.induct)
  case (1 kfs ts a b)
  show ?case
  proof (cases "a \<le> b")
    case False
    with "1.prems" have ab: "a = b + 1" by simp
    have "findKeyframeIndices_loop kfs ts a b = Inr (b, b + 1)"
      using False ab by (subst findKeyframeIndices_loop.simps) simp
    moreover have "- 1 \<le> b" using ab "1.prems"(1) by simp
    ultimately show ?thesis
      using "1.prems" ab by auto
  next
    case True
    let ?c = "(a + b) sdiv 2"
    have cdiv: "?c = (a + b) div 2"
      using True "1.prems"(1) by (simp add: sdiv2_nonneg)
    have crange: "a \<le> ?c" "?c \<le> b" using cdiv True by linarith+
    then have c0: "0 \<le> ?c" and clen: "?c < int (length kfs)"
      using "1.prems"(1,2) by linarith+
    have at: "QList_at kfs ?c = Inr (kfs ! nat ?c)"
      using c0 clen by (rule QList_at_in_range)
    have nc: "nat ?c < length kfs" using c0 clen by linarith
    consider (lt) "kf_t (kfs ! nat ?c) < ts" | (gt) "ts < kf_t (kfs ! nat ?c)"
      | (eq) "kf_t (kfs ! nat ?c) = ts" by linarith
    then show ?thesis
    proof cases
      case lt
      have unf: "findKeyframeIndices_loop kfs ts a b = findKeyframeIndices_loop kfs ts (?c + 1) b"
        using True lt at by (subst findKeyframeIndices_loop.simps) simp
      have bl: "all_below kfs ts (nat (?c + 1))"
        using below_step [OF "1.prems"(6) nc lt] c0 by (simp add: nat_add_distrib)
      have "(\<exists>c'. 0 \<le> c' \<and> c' < int (length kfs) \<and> kf_t (kfs ! nat c') = ts
               \<and> findKeyframeIndices_loop kfs ts (?c + 1) b = Inr (c', c'))
         \<or> (\<exists>lo. - 1 \<le> lo \<and> lo < int (length kfs) \<and> all_below kfs ts (nat (lo + 1))
               \<and> all_above kfs ts (nat (lo + 1))
               \<and> findKeyframeIndices_loop kfs ts (?c + 1) b = Inr (lo, lo + 1))"
        using "1.IH"(1) [OF True at lt] c0 "1.prems"(2) crange(2)
          bl "1.prems"(5,6) by simp
      then show ?thesis unfolding unf .
    next
      case gt
      then have nlt: "\<not> kf_t (kfs ! nat ?c) < ts" by simp
      have unf: "findKeyframeIndices_loop kfs ts a b = findKeyframeIndices_loop kfs ts a (?c - 1)"
        using True gt nlt at by (subst findKeyframeIndices_loop.simps) simp
      have ab: "all_above kfs ts (nat (?c - 1 + 1))"
        using above_step [OF "1.prems"(6) nc gt] by simp
      have "(\<exists>c'. 0 \<le> c' \<and> c' < int (length kfs) \<and> kf_t (kfs ! nat c') = ts
               \<and> findKeyframeIndices_loop kfs ts a (?c - 1) = Inr (c', c'))
         \<or> (\<exists>lo. - 1 \<le> lo \<and> lo < int (length kfs) \<and> all_below kfs ts (nat (lo + 1))
               \<and> all_above kfs ts (nat (lo + 1))
               \<and> findKeyframeIndices_loop kfs ts a (?c - 1) = Inr (lo, lo + 1))"
        using "1.IH"(2) [OF True at nlt gt] "1.prems"(1) clen crange(1)
          ab "1.prems"(4,6) by simp
      then show ?thesis unfolding unf .
    next
      case eq
      have "findKeyframeIndices_loop kfs ts a b = Inr (?c, ?c)"
        using True eq at by (subst findKeyframeIndices_loop.simps) simp
      with c0 clen eq show ?thesis by blast
    qed
  qed
qed


lemma findKeyframeIndices_sorted:
  assumes "sorted_wrt (<) (map kf_t kfs)"
  shows "(\<exists>c. 0 \<le> c \<and> c < int (length kfs) \<and> kf_t (kfs ! nat c) = ts
               \<and> findKeyframeIndices kfs ts = Inr (c, c))
         \<or> (\<exists>lo. - 1 \<le> lo \<and> lo < int (length kfs) \<and> all_below kfs ts (nat (lo + 1))
               \<and> all_above kfs ts (nat (lo + 1))
               \<and> findKeyframeIndices kfs ts = Inr (lo, lo + 1))"
  unfolding findKeyframeIndices_def
  by (rule loop_sorted [OF assms]) (simp_all add: all_below_def all_above_def)

lemma sorted_times_inj:
  assumes "sorted_wrt (<) (map kf_t kfs)" "i < length kfs" "j < length kfs"
    "kf_t (kfs ! i) = kf_t (kfs ! j)"
  shows "i = j"
proof (rule ccontr)
  assume "i \<noteq> j"
  then consider "i < j" | "j < i" by linarith
  then show False
    using sorted_nth [OF assms(1), of i j] sorted_nth [OF assms(1), of j i] assms(2,3,4)
    by cases simp_all
qed

lemma sorted_hd_le:
  assumes "sorted_wrt (<) (map kf_t kfs)" "i < length kfs"
  shows "kf_t (hd kfs) \<le> kf_t (kfs ! i)"
proof -
  from assms(2) have ne: "kfs \<noteq> []" by auto
  show ?thesis
  proof (cases i)
    case 0
    with ne show ?thesis by (simp add: hd_conv_nth)
  next
    case (Suc n)
    with sorted_nth [OF assms(1), of 0 i] assms(2) ne show ?thesis by (simp add: hd_conv_nth)
  qed
qed

lemma sorted_le_last:
  assumes "sorted_wrt (<) (map kf_t kfs)" "i < length kfs"
  shows "kf_t (kfs ! i) \<le> kf_t (last kfs)"
proof -
  from assms(2) have ne: "kfs \<noteq> []" by auto
  show ?thesis
  proof (cases "i = length kfs - 1")
    case True
    with ne show ?thesis by (simp add: last_conv_nth)
  next
    case False
    with assms(2) have "i < length kfs - 1" by simp
    with sorted_nth [OF assms(1), of i "length kfs - 1"] assms(2) ne show ?thesis
      by (simp add: last_conv_nth)
  qed
qed

lemma sorted_insert:
  assumes srt: "sorted_wrt (<) (xs :: int list)" and n: "n \<le> length xs"
    and lo: "\<forall>i<n. xs ! i < x" and hi: "\<forall>i. n \<le> i \<and> i < length xs \<longrightarrow> x < xs ! i"
  shows "sorted_wrt (<) (take n xs @ x # drop n xs)"
proof -
  have "sorted_wrt (<) (take n xs @ drop n xs)" using srt by simp
  then have parts: "sorted_wrt (<) (take n xs)" "sorted_wrt (<) (drop n xs)"
    by (simp_all add: sorted_wrt_append)
  have l: "\<forall>y\<in>set (take n xs). y < x"
    using lo n by (auto simp: in_set_conv_nth)
  have h: "\<forall>y\<in>set (drop n xs). x < y"
    using hi n by (auto simp: in_set_conv_nth)
  from l h have "\<forall>y\<in>set (take n xs). \<forall>z\<in>set (drop n xs). y < z" by fastforce
  with parts l h show ?thesis by (simp add: sorted_wrt_append)
qed

lemma addKeyframe_sorted:
  assumes srt: "keyframes_sorted a"
  shows "\<exists>a'. addKeyframe a kf = Inr a' \<and> keyframes_sorted a'"
proof -
  let ?kfs = "keyframes a"
  have s: "sorted_wrt (<) (map kf_t ?kfs)" using srt by (simp add: keyframes_sorted_def)
  show ?thesis
  proof (cases "?kfs = []")
    case True
    then show ?thesis by (simp add: addKeyframe_def keyframes_sorted_def)
  next
    case ne: False
    show ?thesis
    proof (cases "kf_t kf > endTime a")
      case True
      have "\<forall>x\<in>set ?kfs. kf_t x < kf_t kf"
        using True ne sorted_le_last [OF s] by (fastforce simp: endTime_def in_set_conv_nth)
      with s ne True show ?thesis
        by (simp add: addKeyframe_def keyframes_sorted_def sorted_wrt_append)
    next
      case notend: False
      show ?thesis
      proof (cases "kf_t kf < startTime a")
        case True
        have "\<forall>x\<in>set ?kfs. kf_t kf < kf_t x"
          using True ne sorted_hd_le [OF s] by (fastforce simp: startTime_def in_set_conv_nth)
        with s ne True notend show ?thesis
          by (simp add: addKeyframe_def keyframes_sorted_def)
      next
        case notstart: False
        from findKeyframeIndices_sorted [OF s, of "kf_t kf"]
        show ?thesis
        proof (elim disjE exE conjE)
          fix c assume c: "0 \<le> c" "c < int (length ?kfs)" "kf_t (?kfs ! nat c) = kf_t kf"
            "findKeyframeIndices ?kfs (kf_t kf) = Inr (c, c)"
          have "map kf_t (?kfs[nat c := kf]) = map kf_t ?kfs"
            using c(1,2,3) by (simp add: map_update list_update_same_conv)
          with s c ne notend notstart show ?thesis
            by (simp add: addKeyframe_def keyframes_sorted_def)
        next
          fix lo assume lo: "- 1 \<le> lo" "lo < int (length ?kfs)"
            "all_below ?kfs (kf_t kf) (nat (lo + 1))" "all_above ?kfs (kf_t kf) (nat (lo + 1))"
            "findKeyframeIndices ?kfs (kf_t kf) = Inr (lo, lo + 1)"
          have n: "nat (lo + 1) \<le> length (map kf_t ?kfs)" using lo(1,2) by simp
          have "sorted_wrt (<) (take (nat (lo + 1)) (map kf_t ?kfs) @ kf_t kf
                  # drop (nat (lo + 1)) (map kf_t ?kfs))"
            using lo(3,4) n by (intro sorted_insert [OF s n]) (auto simp: all_below_def all_above_def)
          then have "sorted_wrt (<) (map kf_t (QList_insert ?kfs (lo + 1) kf))"
            by (simp add: QList_insert_def take_map drop_map)
          with lo(5) ne notend notstart show ?thesis
            by (simp add: addKeyframe_def keyframes_sorted_def)
        qed
      qed
    qed
  qed
qed

lemma addKeyframe_overwrite:
  assumes srt: "keyframes_sorted a" and j: "j < length (keyframes a)"
    and eq: "kf_t (keyframes a ! j) = kf_t kf"
  shows "addKeyframe a kf = Inr (a\<lparr>keyframes := (keyframes a)[j := kf]\<rparr>)"
proof -
  let ?kfs = "keyframes a"
  have s: "sorted_wrt (<) (map kf_t ?kfs)" using srt by (simp add: keyframes_sorted_def)
  have ne: "length ?kfs \<noteq> 0" using j by auto
  have notend: "\<not> kf_t kf > endTime a"
    using sorted_le_last [OF s j] eq ne by (simp add: endTime_def)
  have notstart: "\<not> kf_t kf < startTime a"
    using sorted_hd_le [OF s j] eq ne by (simp add: startTime_def)
  from findKeyframeIndices_sorted [OF s, of "kf_t kf"]
  show ?thesis
  proof (elim disjE exE conjE)
    fix c assume c: "0 \<le> c" "c < int (length ?kfs)" "kf_t (?kfs ! nat c) = kf_t kf"
      "findKeyframeIndices ?kfs (kf_t kf) = Inr (c, c)"
    have "nat c = j"
      using sorted_times_inj [OF s, of "nat c" j] c(1,2,3) j eq by simp
    with c ne notend notstart show ?thesis
      by (simp add: addKeyframe_def)
  next
    fix lo assume lo: "all_below ?kfs (kf_t kf) (nat (lo + 1))"
      "all_above ?kfs (kf_t kf) (nat (lo + 1))"
    from lo j eq have False
      unfolding all_below_def all_above_def by (metis less_irrefl not_le_imp_less)
    then show ?thesis ..
  qed
qed

lemma addKeyframes_sorted:
  "keyframes_sorted a \<Longrightarrow> \<exists>a'. addKeyframes a kfs = Inr a' \<and> keyframes_sorted a'"
proof (induction kfs arbitrary: a)
  case Nil
  then show ?case by simp
next
  case (Cons kf kfs)
  from addKeyframe_sorted [OF Cons.prems, of kf]
  obtain a1 where a1: "addKeyframe a kf = Inr a1" "keyframes_sorted a1" by blast
  from Cons.IH [OF a1(2)] a1(1) show ?case by simp
qed

section \<open>Adding key frames\<close>

lemma key_times:
  "kf_t (key_at time x) = time"
  by (simp add: key_at_def)

lemma two_keys_sorted: "keyframes_sorted two_keys"
  by (simp add: keyframes_sorted_def two_keys_def key_times)

text \<open>
  Claim C7. Starting from an animation whose key frame list is sorted strictly ascending
  by time stamp, every sequence of \<open>addKeyframe\<close> calls succeeds and leaves the list sorted
  strictly ascending, so with at most one key frame for each time stamp. Adding a key
  frame whose time stamp is that of the key frame at index \<open>j\<close> overwrites that key frame
  and leaves the length of the list unchanged.
\<close>

theorem addKeyframe_keeps_sorted:
  assumes "keyframes_sorted a"
  shows "(\<exists>a'. addKeyframes a kfs = Inr a' \<and> keyframes_sorted a'
               \<and> distinct (map kf_t (keyframes a')))
         \<and> (\<forall>kf j. j < length (keyframes a) \<and> kf_t (keyframes a ! j) = kf_t kf \<longrightarrow>
                addKeyframe a kf = Inr (a\<lparr>keyframes := (keyframes a)[j := kf]\<rparr>)
                \<and> length ((keyframes a)[j := kf]) = length (keyframes a))"
proof
  from addKeyframes_sorted [OF assms, of kfs]
  obtain a' where a': "addKeyframes a kfs = Inr a'" "keyframes_sorted a'" by blast
  from a'(2) have "distinct (map kf_t (keyframes a'))"
    by (simp add: keyframes_sorted_def strict_sorted_iff)
  with a' show "\<exists>a'. addKeyframes a kfs = Inr a' \<and> keyframes_sorted a'
                  \<and> distinct (map kf_t (keyframes a'))" by blast
next
  show "\<forall>kf j. j < length (keyframes a) \<and> kf_t (keyframes a ! j) = kf_t kf \<longrightarrow>
          addKeyframe a kf = Inr (a\<lparr>keyframes := (keyframes a)[j := kf]\<rparr>)
          \<and> length ((keyframes a)[j := kf]) = length (keyframes a)"
    using addKeyframe_overwrite [OF assms] by simp
qed

theorem addKeyframe_keeps_sorted_witness:
  "keyframes_sorted two_keys
   \<and> (\<exists>a'. addKeyframes two_keys [key_at 5 3, key_at 10 4, key_at 20 5, key_at (- 1) 6] = Inr a'
            \<and> keyframes_sorted a' \<and> distinct (map kf_t (keyframes a')))
   \<and> addKeyframe two_keys (key_at 10 4) = Inr \<lparr>keyframes = [key_at 0 1, key_at 10 4]\<rparr>"
proof -
  have "1 < length (keyframes two_keys)
          \<and> kf_t (keyframes two_keys ! 1) = kf_t (key_at 10 4)"
    by (simp add: two_keys_def key_times)
  with addKeyframe_keeps_sorted [OF two_keys_sorted, of "[]"]
  have "addKeyframe two_keys (key_at 10 4)
          = Inr (two_keys\<lparr>keyframes := (keyframes two_keys)[1 := key_at 10 4]\<rparr>)"
    by blast
  then have "addKeyframe two_keys (key_at 10 4) = Inr \<lparr>keyframes = [key_at 0 1, key_at 10 4]\<rparr>"
    by (simp add: two_keys_def)
  with two_keys_sorted addKeyframe_keeps_sorted [OF two_keys_sorted]
  show ?thesis by blast
qed



section \<open>Interpolation between key frames\<close>










section \<open>Animations without key frames\<close>

text \<open>
  Claim C9. For an animation with zero key frames and any time \<open>ts\<close>, \<open>interpolate\<close> returns
  (it does not fail) the identity transformation: zero translation, the identity
  quaternion as rotation, and scale factor 1.
\<close>

theorem interpolate_no_keyframes:
  "length (keyframes a) = 0 \<Longrightarrow>
     interpolate fo a ts =
       Inr \<lparr>translation = (0, 0, 0), rotation = (1, 0, 0, 0), scaling = (1, 1, 1)\<rparr>"
  by (simp add: interpolate_def Transformation_default_def QVector3D_default_def
      QQuaternion_default_def)

theorem interpolate_no_keyframes_witness:
  "length (keyframes (\<lparr>keyframes = []\<rparr> :: rat Animation)) = 0 \<and>
     interpolate (fops exact_platform) \<lparr>keyframes = []\<rparr> 7 =
       Inr \<lparr>translation = (0, 0, 0), rotation = (1, 0, 0, 0), scaling = (1, 1, 1)\<rparr>"
  using interpolate_no_keyframes [of "\<lparr>keyframes = []\<rparr> :: rat Animation" "fops exact_platform" 7]
  by simp


section \<open>What \<open>simulate\<close> leaves unchanged\<close>

lemma kept_recreateShaders:
  "recreateShadersIfNecessary g s = Inr s' \<Longrightarrow> kept_by_simulate s' = kept_by_simulate s"
  by (auto simp: recreateShadersIfNecessary_def kept_by_simulate_def split: if_splits option.splits)

lemma kept_recreateOutput:
  "kept_by_simulate (recreateOutputIfNecessary g s) = kept_by_simulate s"
  by (simp add: recreateOutputIfNecessary_def kept_by_simulate_def Let_def)

lemma kept_simulateTimestampsAt:
  assumes "simulateTimestampsAt pf ts n r = Inr s'"
  shows "\<exists>s. r = Inr s \<and> kept_by_simulate s' = kept_by_simulate s"
proof (cases r)
  case (Inl e)
  with assms show ?thesis by (simp add: simulateTimestampsAt_def)
next
  case (Inr s)
  from assms Inr have "kept_by_simulate s' = kept_by_simulate s"
    unfolding simulateTimestampsAt_def Let_def
    by (simp split: sum.splits if_splits) (auto simp: kept_by_simulate_def)
  with Inr show ?thesis by simp
qed


lemma kept_fold:
  "fold (simulateTimestampsAt pf ts) [0..<n] (Inr s) = Inr s' \<Longrightarrow> kept_by_simulate s' = kept_by_simulate s"
proof (induction n arbitrary: s')
  case 0
  then show ?case by simp
next
  case (Suc n)
  from Suc.prems have "simulateTimestampsAt pf ts n (fold (simulateTimestampsAt pf ts) [0..<n] (Inr s)) = Inr s'"
    by simp
  from kept_simulateTimestampsAt [OF this]
  obtain s1 where "fold (simulateTimestampsAt pf ts) [0..<n] (Inr s) = Inr s1"
    "kept_by_simulate s' = kept_by_simulate s1" by blast
  with Suc.IH show ?case by simp
qed

lemma kept_simulate:
  assumes "simulate pf s ts = Inr s'"
  shows "kept_by_simulate s' = kept_by_simulate s"
proof -
  from assms obtain s1 s3 where
    1: "recreateShadersIfNecessary (gl pf) s = Inr s1" and
    3: "simulateTimestamps pf (recreateOutputIfNecessary (gl pf) s1) ts = Inr s3" and
    e: "s' = s3\<lparr>m_lastFrameTimestamp := ts, m_haveLastFrameTimestamp := True\<rparr>"
    by (auto simp: simulate_def split: sum.splits)
  from 3 have "kept_by_simulate s3 = kept_by_simulate (recreateOutputIfNecessary (gl pf) s1)"
    unfolding simulateTimestamps_def by (rule kept_fold)
  with kept_recreateOutput [of "gl pf" s1] kept_recreateShaders [OF 1]
  have "kept_by_simulate s3 = kept_by_simulate s" by simp
  then show ?thesis by (simp add: e kept_by_simulate_def)
qed


section \<open>Fatal configuration errors\<close>

lemma sanityChecks_None:
  assumes "sanityChecks s = None"
  shows "length (lights (m_scene s)) \<noteq> 0"
    and "length (lightAnimations (m_scene s)) = length (lights (m_scene s))"
    and "length (objectAnimations (m_scene s)) = length (objects (m_scene s))"
    and "fst (spatialSamples (m_pipeline s)) smod 2 = 1"
    and "snd (spatialSamples (m_pipeline s)) smod 2 = 1"
    and "\<not> (preprocLensDistortion (m_pipeline s) \<and> postprocLensDistortion (m_pipeline s))"
    and "\<not> (postprocLensDistortion (m_pipeline s)
             \<and> (indices (m_output s) \<or> forwardFlow3D (m_output s) \<or> forwardFlow2D (m_output s)
                 \<or> backwardFlow3D (m_output s) \<or> backwardFlow2D (m_output s)))"
  using assms unfolding sanityChecks_def by (simp_all split: if_splits)

lemma sanityChecks_cong:
  "m_scene s' = m_scene s \<Longrightarrow> m_pipeline s' = m_pipeline s \<Longrightarrow> m_output s' = m_output s \<Longrightarrow>
     sanityChecks s' = sanityChecks s"
  by (simp only: sanityChecks_def)

lemma recreate_checks:
  "sanityChecks (recreateTimestampsIfNecessary s) = sanityChecks s"
  "m_recreateShaders (recreateTimestampsIfNecessary s) = m_recreateShaders s"
proof -
  show "sanityChecks (recreateTimestampsIfNecessary s) = sanityChecks s"
    by (rule sanityChecks_cong) (simp_all add: recreateTimestampsIfNecessary_def Let_def)
  show "m_recreateShaders (recreateTimestampsIfNecessary s) = m_recreateShaders s"
    by (simp add: recreateTimestampsIfNecessary_def Let_def)
qed

lemma simulate_checked:
  assumes "simulate pf s ts = Inr s'" and "m_recreateShaders s \<or> sanityChecks s = None"
  shows "sanityChecks s' = None"
proof -
  from kept_simulate [OF assms(1)] have "sanityChecks s' = sanityChecks s"
    by (intro sanityChecks_cong) (simp_all add: kept_by_simulate_def)
  moreover have "sanityChecks s = None"
  proof (cases "m_recreateShaders s")
    case True
    from assms(1) obtain s1 where "recreateShadersIfNecessary (gl pf) s = Inr s1"
      by (simp add: simulate_def split: sum.splits)
    with True show ?thesis
      by (simp add: recreateShadersIfNecessary_def split: option.splits)
  next
    case False
    with assms(2) show ?thesis by simp
  qed
  ultimately show ?thesis by simp
qed

lemma reachable_checked:
  "reachable pf s \<Longrightarrow> m_recreateShaders s \<or> sanityChecks s = None"
proof (induction rule: reachable.induct)
  case (r_new u_start u_end u_have u_last)
  show ?case by (simp add: Simulator_new_def)
next
  case (r_setCameraAnimation s animation)
  have "sanityChecks (setCameraAnimation s animation) = sanityChecks s"
    by (rule sanityChecks_cong) (simp_all add: setCameraAnimation_def)
  with r_setCameraAnimation.IH show ?case by (simp add: setCameraAnimation_def)
next
  case (r_setScene s sc)
  show ?case by (simp add: setScene_def)
next
  case (r_setChipTiming s ct)
  have "sanityChecks (setChipTiming s ct) = sanityChecks s"
    by (rule sanityChecks_cong) (simp_all add: setChipTiming_def)
  with r_setChipTiming.IH show ?case by (simp add: setChipTiming_def)
next
  case (r_setProjection s)
  have "sanityChecks (setProjection s) = sanityChecks s"
    by (rule sanityChecks_cong) (simp_all add: setProjection_def)
  with r_setProjection.IH show ?case by (simp add: setProjection_def)
next
  case (r_setPipeline s pl)
  show ?case by (simp add: setPipeline_def)
next
  case (r_setOutput s out)
  show ?case by (simp add: setOutput_def)
next
  case (r_startTimestamp s)
  then show ?case by (simp add: recreate_checks)
next
  case (r_endTimestamp s)
  then show ?case by (simp add: recreate_checks)
next
  case (r_nextFrameTimestamp s)
  then show ?case by (simp add: recreate_checks)
next
  case (r_simulate s ts s')
  from simulate_checked [OF r_simulate.hyps(2) r_simulate.IH] show ?case by simp
qed

text \<open>
  Claim C3. When \<open>simulate\<close> resolves a changed configuration (the shader dirty flag is
  set, as every setter of scene, pipeline and output leaves it), and in fact in every
  state that a program can reach, each of these conditions ends the process with a fatal
  error, in the first step of \<open>simulate\<close> and so before the sub-frame time stamps are
  resolved and before any render pass: no light in the scene; a number of
  light animations other than the number of lights, or of object animations other than the
  number of objects; a spatial sample count that is not odd in both width and height;
  pre-process and post-process lens distortion both enabled; post-process lens distortion
  together with the indices output or one of the four flow outputs.
\<close>

theorem simulate_fatal:
  assumes "m_recreateShaders s \<or> reachable pf s"
    and "length (lights (m_scene s)) = 0
         \<or> length (lightAnimations (m_scene s)) \<noteq> length (lights (m_scene s))
         \<or> length (objectAnimations (m_scene s)) \<noteq> length (objects (m_scene s))
         \<or> \<not> (odd (fst (spatialSamples (m_pipeline s))) \<and> odd (snd (spatialSamples (m_pipeline s))))
         \<or> (preprocLensDistortion (m_pipeline s) \<and> postprocLensDistortion (m_pipeline s))
         \<or> (postprocLensDistortion (m_pipeline s)
             \<and> (indices (m_output s) \<or> forwardFlow3D (m_output s) \<or> forwardFlow2D (m_output s)
                 \<or> backwardFlow3D (m_output s) \<or> backwardFlow2D (m_output s)))"
  shows "\<exists>msg. simulate pf s ts = Inl (Fatal msg)"
proof -
  have "sanityChecks s \<noteq> None"
  proof
    assume n: "sanityChecks s = None"
    have "odd (fst (spatialSamples (m_pipeline s)))" "odd (snd (spatialSamples (m_pipeline s)))"
      using sanityChecks_None(4,5) [OF n] smod2_even by blast+
    with assms(2) sanityChecks_None(1,2,3,6,7) [OF n] show False by blast
  qed
  then obtain msg where "sanityChecks s = Some msg" by blast
  moreover from this assms(1) reachable_checked [of pf s] have "m_recreateShaders s" by auto
  ultimately show ?thesis
    by (simp add: simulate_def recreateShadersIfNecessary_def)
qed

theorem simulate_fatal_witness:
  "simulate exact_platform
     (setPipeline (setScene (Simulator_new (dops exact_platform) 0 0 False 0) scene_one_light)
        (Pipeline_default\<lparr>spatialSamples := (2, 3)\<rparr>)) 0
   = Inl (Fatal ''Invalid number of spatial samples in pipeline configuration'')"
proof -
  let ?s = "setPipeline (setScene (Simulator_new (dops exact_platform) 0 0 False 0) scene_one_light)
              (Pipeline_default\<lparr>spatialSamples := (2, 3)\<rparr>)"
  have "\<exists>msg. simulate exact_platform ?s 0 = Inl (Fatal msg)"
    by (rule simulate_fatal) (simp_all add: setPipeline_def)
  then obtain msg where m: "simulate exact_platform ?s 0 = Inl (Fatal msg)" ..
  have "sanityChecks ?s = Some ''Invalid number of spatial samples in pipeline configuration''"
    by (simp add: sanityChecks_def setPipeline_def setScene_def scene_one_light_def addLight_def
        Scene_default_def signed_modulo_int_def)
  then have "simulate exact_platform ?s 0
               = Inl (Fatal ''Invalid number of spatial samples in pipeline configuration'')"
    by (simp add: simulate_def recreateShadersIfNecessary_def setPipeline_def)
  with m show ?thesis by simp
qed


section \<open>Validity gating of the result accessors\<close>

lemma never_simulated_flags:
  "never_simulated dop s \<Longrightarrow>
     m_recreateOutput s \<and> (m_recreateTimestamps s \<or> \<not> m_haveLastFrameTimestamp s)"
proof (induction rule: never_simulated.induct)
  case (n_new u_start u_end u_have u_last)
  show ?case by (simp add: Simulator_new_def)
next
  case (n_setCameraAnimation s animation)
  then show ?case by (simp add: setCameraAnimation_def)
next
  case (n_setScene s sc)
  then show ?case by (simp add: setScene_def)
next
  case (n_setChipTiming s ct)
  then show ?case by (simp add: setChipTiming_def)
next
  case (n_setProjection s)
  then show ?case by (simp add: setProjection_def)
next
  case (n_setPipeline s pl)
  then show ?case by (simp add: setPipeline_def)
next
  case (n_setOutput s out)
  then show ?case by (simp add: setOutput_def)
next
  case (n_startTimestamp s)
  then show ?case
    by (auto simp: startTimestamp_def endTimestamp_def nextFrameTimestamp_def
        recreateTimestampsIfNecessary_def Let_def)
next
  case (n_endTimestamp s)
  then show ?case
    by (auto simp: startTimestamp_def endTimestamp_def nextFrameTimestamp_def
        recreateTimestampsIfNecessary_def Let_def)
next
  case (n_nextFrameTimestamp s)
  then show ?case
    by (auto simp: startTimestamp_def endTimestamp_def nextFrameTimestamp_def
        recreateTimestampsIfNecessary_def Let_def)
qed

lemmas accessor_defs =
  getShadowMapCubeTex_def getReflectiveShadowMapCubeArrayTex_def getDepthTex_def getRGBTex_def
  getSRGBTex_def getPMDTex_def getEyeSpacePositionsTex_def getCustomSpacePositionsTex_def
  getEyeSpaceNormalsTex_def getCustomSpaceNormalsTex_def getDepthAndRangeTex_def
  getIndicesTex_def getForwardFlow3DTex_def getForwardFlow2DTex_def getBackwardFlow3DTex_def
  getBackwardFlow2DTex_def

lemma getTex_shape:
  "\<exists>x. getTex k s i = (if outputEnabled k s \<and> haveValidOutput s i then x else Inr 0)"
  by (cases k) (simp_all add: accessor_defs conj_commute)

text \<open>
  Claim C4. For every texture accessor \<open>k\<close> and every sub-frame index \<open>i\<close>: the accessor
  returns the handle 0, and not a failure, whenever its output is not enabled, or no frame
  has been simulated (the flag \<open>_haveLastFrameTimestamp\<close> is clear), or the output
  configuration is dirty, or \<open>i\<close> is outside \<open>[-1, subFrames() - 1]\<close>; and when it returns a
  handle other than 0, all of these conditions hold. In particular it returns 0 as long as
  \<open>simulate\<close> has not been called, whatever the uninitialised flag holds.
\<close>

theorem getTex_gated:
  "(\<not> outputEnabled k s \<or> \<not> m_haveLastFrameTimestamp s \<or> m_recreateOutput s
      \<or> i < - 1 \<or> i > subFrames s - 1 \<longrightarrow> getTex k s i = Inr 0)
   \<and> (\<forall>h. getTex k s i = Inr h \<and> h \<noteq> 0 \<longrightarrow>
          outputEnabled k s \<and> m_haveLastFrameTimestamp s \<and> \<not> m_recreateOutput s
          \<and> - 1 \<le> i \<and> i \<le> subFrames s - 1)
   \<and> (never_simulated dop s \<longrightarrow> getTex k s i = Inr 0)"
proof -
  obtain x where x: "getTex k s i = (if outputEnabled k s \<and> haveValidOutput s i then x else Inr 0)"
    using getTex_shape by blast
  have v: "haveValidOutput s i \<longleftrightarrow>
             m_haveLastFrameTimestamp s \<and> \<not> m_recreateOutput s \<and> - 1 \<le> i \<and> i \<le> subFrames s - 1"
    by (auto simp: haveValidOutput_def)
  have n: "never_simulated dop s \<longrightarrow> m_recreateOutput s"
    using never_simulated_flags by blast
  show ?thesis
    unfolding x v using n by (auto split: if_splits)
qed



theorem getTex_gated_witness:
  "getTex RGB (Simulator_new (dops exact_platform) 0 0 True 0 :: (rat, rat) Simulator) (- 1) = Inr 0
   \<and> getTex RGB
         ((Simulator_new (dops exact_platform) 0 0 True 0 :: (rat, rat) Simulator)
            \<lparr>m_recreateOutput := False, m_rgbTexs := [7]\<rparr>) 0 = Inr 7
   \<and> outputEnabled RGB
         ((Simulator_new (dops exact_platform) 0 0 True 0 :: (rat, rat) Simulator)
            \<lparr>m_recreateOutput := False, m_rgbTexs := [7]\<rparr>)"
proof -
  let ?s = "Simulator_new (dops exact_platform) 0 0 True 0 :: (rat, rat) Simulator"
  let ?s' = "?s\<lparr>m_recreateOutput := False, m_rgbTexs := [7]\<rparr>"
  have "never_simulated (dops exact_platform) ?s" by (rule n_new)
  with getTex_gated [of RGB ?s "- 1" "dops exact_platform"]
  have 1: "getTex RGB ?s (- 1) = Inr 0" by blast
  have 2: "getTex RGB ?s' 0 = Inr 7"
    by (simp add: getRGBTex_def haveValidOutput_def subFrames_def lastOrAt_def QList_at_def
        Simulator_new_def Output_default_def)
  have 3: "outputEnabled RGB ?s'"
    using getTex_gated [of RGB ?s' 0] 2 by simp
  from 1 2 3 show ?thesis by simp
qed



section \<open>Time stamp bounds\<close>

lemma fold_extend_fst:
  "fst (fold extendTimestamps as se) = fold min (map startTime as) (fst se)"
  by (induction as arbitrary: se) (simp_all add: extendTimestamps_def min_def)

lemma fold_extend_snd:
  "snd (fold extendTimestamps as se) = fold max (map endTime as) (snd se)"
  by (induction as arbitrary: se) (simp_all add: extendTimestamps_def max_def)

lemma recreate_start:
  "m_recreateTimestamps s \<Longrightarrow>
     m_startTimestamp (recreateTimestampsIfNecessary s) = Min (set (map startTime (animations s)))"
  by (simp add: recreateTimestampsIfNecessary_def Let_def fold_extend_fst animations_def
      Min.set_eq_fold del: set_simps set_map set_append)

lemma recreate_end:
  "m_recreateTimestamps s \<Longrightarrow>
     m_endTimestamp (recreateTimestampsIfNecessary s) = Max (set (map endTime (animations s)))"
  by (simp add: recreateTimestampsIfNecessary_def Let_def fold_extend_snd animations_def
      Max.set_eq_fold del: set_simps set_map set_append)

lemma recreate_animations [simp]:
  "animations (recreateTimestampsIfNecessary s) = animations s"
  by (simp add: recreateTimestampsIfNecessary_def Let_def animations_def)

lemma recreate_bounds:
  assumes "timestamps_resolved s"
  shows "m_startTimestamp (recreateTimestampsIfNecessary s)
           = Min (set (map startTime (animations s)))"
    and "m_endTimestamp (recreateTimestampsIfNecessary s)
           = Max (set (map endTime (animations s)))"
proof -
  show "m_startTimestamp (recreateTimestampsIfNecessary s)
           = Min (set (map startTime (animations s)))"
  proof (cases "m_recreateTimestamps s")
    case True then show ?thesis by (rule recreate_start)
  next
    case False with assms show ?thesis
      by (simp add: timestamps_resolved_def recreateTimestampsIfNecessary_def)
  qed
  show "m_endTimestamp (recreateTimestampsIfNecessary s)
           = Max (set (map endTime (animations s)))"
  proof (cases "m_recreateTimestamps s")
    case True then show ?thesis by (rule recreate_end)
  next
    case False with assms show ?thesis
      by (simp add: timestamps_resolved_def recreateTimestampsIfNecessary_def)
  qed
qed

lemma recreate_resolved: "timestamps_resolved s \<Longrightarrow> timestamps_resolved (recreateTimestampsIfNecessary s)"
  using recreate_bounds [of s] by (simp add: timestamps_resolved_def)

lemma resolved_schedule:
  "schedule_of s' = schedule_of s \<Longrightarrow> timestamps_resolved s' = timestamps_resolved s"
  by (simp add: schedule_of_def timestamps_resolved_def animations_def)

lemma schedule_simulate:
  assumes "simulate pf s ts = Inr s'"
  shows "schedule_of s' = schedule_of s"
  using kept_simulate [OF assms] by (simp add: kept_by_simulate_def schedule_of_def)

lemma reachable_resolved: "reachable pf s \<Longrightarrow> timestamps_resolved s"
proof (induction rule: reachable.induct)
  case (r_new u_start u_end u_have u_last)
  show ?case by (simp add: timestamps_resolved_def Simulator_new_def)
next
  case (r_setCameraAnimation s animation)
  show ?case by (simp add: timestamps_resolved_def setCameraAnimation_def)
next
  case (r_setScene s sc)
  show ?case by (simp add: timestamps_resolved_def setScene_def)
next
  case (r_setChipTiming s ct)
  show ?case by (simp add: timestamps_resolved_def setChipTiming_def)
next
  case (r_setProjection s)
  have "schedule_of (setProjection s) = schedule_of s"
    by (simp add: schedule_of_def setProjection_def)
  from resolved_schedule [OF this] r_setProjection.IH show ?case by simp
next
  case (r_setPipeline s pl)
  have "schedule_of (setPipeline s pl) = schedule_of s"
    by (simp add: schedule_of_def setPipeline_def)
  from resolved_schedule [OF this] r_setPipeline.IH show ?case by simp
next
  case (r_setOutput s out)
  have "schedule_of (setOutput s out) = schedule_of s"
    by (simp add: schedule_of_def setOutput_def)
  from resolved_schedule [OF this] r_setOutput.IH show ?case by simp
next
  case (r_startTimestamp s)
  then show ?case by (simp add: recreate_resolved)
next
  case (r_endTimestamp s)
  then show ?case by (simp add: recreate_resolved)
next
  case (r_nextFrameTimestamp s)
  then show ?case by (simp add: recreate_resolved)
next
  case (r_simulate s ts s')
  from resolved_schedule [OF schedule_simulate [OF r_simulate.hyps(2)]] r_simulate.IH
  show ?case by simp
qed

lemma animations_setCameraAnimation:
  "animations (setCameraAnimation s an)
     = an # lightAnimations (m_scene s) @ objectAnimations (m_scene s)"
  by (simp add: animations_def setCameraAnimation_def)

lemma animations_setScene:
  "animations (setScene s sc) = m_cameraAnimation s # lightAnimations sc @ objectAnimations sc"
  by (simp add: animations_def setScene_def)

lemma animations_setChipTiming: "animations (setChipTiming s ct) = animations s"
  by (simp add: animations_def setChipTiming_def)

text \<open>
  Claim C8. In every state that a program can reach, \<open>startTimestamp()\<close> is the minimum of
  the start times of the camera animation and of all light and object animations, and
  \<open>endTimestamp()\<close> is the maximum of their end times. The setters \<open>setCameraAnimation\<close>,
  \<open>setScene\<close> and \<open>setChipTiming\<close> set the dirty flag, and the next query after each of them
  gives the bounds of the animations that are then configured.
\<close>

theorem timestamp_bounds:
  assumes "reachable pf s"
  shows "fst (startTimestamp s) = Min (set (map startTime (animations s)))
         \<and> fst (endTimestamp s) = Max (set (map endTime (animations s)))
         \<and> m_recreateTimestamps (setCameraAnimation s an)
         \<and> fst (startTimestamp (setCameraAnimation s an))
             = Min (set (map startTime (an # lightAnimations (m_scene s)
                                           @ objectAnimations (m_scene s))))
         \<and> fst (endTimestamp (setCameraAnimation s an))
             = Max (set (map endTime (an # lightAnimations (m_scene s)
                                         @ objectAnimations (m_scene s))))
         \<and> m_recreateTimestamps (setScene s sc)
         \<and> fst (startTimestamp (setScene s sc))
             = Min (set (map startTime (m_cameraAnimation s # lightAnimations sc
                                           @ objectAnimations sc)))
         \<and> fst (endTimestamp (setScene s sc))
             = Max (set (map endTime (m_cameraAnimation s # lightAnimations sc
                                         @ objectAnimations sc)))
         \<and> m_recreateTimestamps (setChipTiming s ct)
         \<and> fst (startTimestamp (setChipTiming s ct)) = Min (set (map startTime (animations s)))
         \<and> fst (endTimestamp (setChipTiming s ct)) = Max (set (map endTime (animations s)))"
proof -
  have b: "fst (startTimestamp x) = Min (set (map startTime (animations x)))
           \<and> fst (endTimestamp x) = Max (set (map endTime (animations x)))"
    if "reachable pf x" for x :: "('a, 'b) Simulator"
    using recreate_bounds [OF reachable_resolved [OF that]]
    by (simp add: startTimestamp_def endTimestamp_def Let_def)
  have f: "m_recreateTimestamps (setCameraAnimation s an)" "m_recreateTimestamps (setScene s sc)"
    "m_recreateTimestamps (setChipTiming s ct)"
    by (simp_all add: setCameraAnimation_def setScene_def setChipTiming_def)
  from b [OF assms] b [OF r_setCameraAnimation [OF assms, of an]]
    b [OF r_setScene [OF assms, of sc]] b [OF r_setChipTiming [OF assms, of ct]] f
  show ?thesis
    by (simp only: animations_setCameraAnimation animations_setScene animations_setChipTiming
        simp_thms)
qed

theorem timestamp_bounds_witness:
  "reachable exact_platform
     (setScene (setCameraAnimation (Simulator_new (dops exact_platform) 7 8 True 9) two_keys)
        scene_moving_light)
   \<and> fst (startTimestamp
            (setScene (setCameraAnimation (Simulator_new (dops exact_platform) 7 8 True 9) two_keys)
               scene_moving_light)) = - 5
   \<and> fst (endTimestamp
            (setScene (setCameraAnimation (Simulator_new (dops exact_platform) 7 8 True 9) two_keys)
               scene_moving_light)) = 10"
proof -
  let ?s = "setScene (setCameraAnimation (Simulator_new (dops exact_platform) 7 8 True 9) two_keys)
              scene_moving_light"
  have r: "reachable exact_platform ?s"
    by (intro r_setScene r_setCameraAnimation r_new)
  have a: "map startTime (animations ?s) = [0, - 5]" "map endTime (animations ?s) = [10, 3]"
    by (simp_all add: animations_def setScene_def setCameraAnimation_def scene_moving_light_def
        addLight_def Scene_default_def two_keys_def startTime_def endTime_def key_times)
  from timestamp_bounds [OF r, of two_keys Scene_default "ChipTiming_default (dops exact_platform)"]
  have "fst (startTimestamp ?s) = - 5" "fst (endTimestamp ?s) = 10"
    unfolding a by simp_all
  with r show ?thesis by simp
qed



section \<open>A scene without key frames\<close>

lemma empty_times: "keyframes a = [] \<Longrightarrow> startTime a = 0 \<and> endTime a = 0"
  by (simp add: startTime_def endTime_def)

lemma static_bounds:
  assumes "\<forall>x\<in>set (animations s). keyframes x = []"
  shows "Min (set (map startTime (animations s))) = 0"
    and "Max (set (map endTime (animations s))) = 0"
proof -
  have ne: "animations s \<noteq> []" by (simp add: animations_def)
  have "startTime ` set (animations s) = (\<lambda>x. 0) ` set (animations s)"
    "endTime ` set (animations s) = (\<lambda>x. 0) ` set (animations s)"
    using assms by (auto simp: empty_times intro!: image_cong)
  with ne have "set (map startTime (animations s)) = {0}"
    "set (map endTime (animations s)) = {0}"
    by (simp_all add: image_constant_conv)
  then show "Min (set (map startTime (animations s))) = 0"
    and "Max (set (map endTime (animations s))) = 0" by simp_all
qed

lemma fst_endTimestamp_recreate:
  "fst (endTimestamp (recreateTimestampsIfNecessary s)) = fst (endTimestamp s)"
  by (simp add: endTimestamp_def Let_def)

text \<open>
  Claim C10. For an animation with zero key frames, \<open>startTime()\<close> and \<open>endTime()\<close> both
  return 0. Hence a simulator, in any state a program can reach, whose camera, light and
  object animations all have no key frames has \<open>startTimestamp() = endTimestamp() = 0\<close>, and
  the frame loop of the example programs, which runs while the next time stamp is before
  \<open>endTimestamp()\<close>, returns without having simulated a frame.
\<close>

theorem static_scene_no_frames:
  "(keyframes a = [] \<longrightarrow> startTime a = 0 \<and> endTime a = 0)
   \<and> (reachable pf s \<and> (\<forall>x\<in>set (animations s). keyframes x = []) \<longrightarrow>
        fst (startTimestamp s) = 0 \<and> fst (endTimestamp s) = 0
        \<and> frameLoop pf s = Some (Inr ([], snd (startTimestamp s))))"
proof (intro conjI impI)
  assume "keyframes a = []"
  then show "startTime a = 0" "endTime a = 0" by (simp_all add: empty_times)
next
  assume h: "reachable pf s \<and> (\<forall>x\<in>set (animations s). keyframes x = [])"
  then have res: "timestamps_resolved s" using reachable_resolved by blast
  from h have e: "\<forall>x\<in>set (animations s). keyframes x = []" by simp
  from recreate_bounds [OF res] static_bounds [OF e]
  have b: "fst (startTimestamp s) = 0" "fst (endTimestamp s) = 0"
    by (simp_all add: startTimestamp_def endTimestamp_def Let_def)
  then show "fst (startTimestamp s) = 0" "fst (endTimestamp s) = 0" by simp_all
  show "frameLoop pf s = Some (Inr ([], snd (startTimestamp s)))"
    unfolding frameLoop_def
    by (subst frameLoop_from.simps) (simp add: b fst_endTimestamp_recreate)
qed

theorem static_scene_no_frames_witness:
  "keyframes (\<lparr>keyframes = []\<rparr> :: rat Animation) = []
   \<and> startTime (\<lparr>keyframes = []\<rparr> :: rat Animation) = 0
   \<and> endTime (\<lparr>keyframes = []\<rparr> :: rat Animation) = 0
   \<and> reachable exact_platform (setScene (Simulator_new (dops exact_platform) 7 8 True 9) scene_one_light)
   \<and> fst (startTimestamp (setScene (Simulator_new (dops exact_platform) 7 8 True 9) scene_one_light)) = 0
   \<and> fst (endTimestamp (setScene (Simulator_new (dops exact_platform) 7 8 True 9) scene_one_light)) = 0
   \<and> frameLoop exact_platform (setScene (Simulator_new (dops exact_platform) 7 8 True 9) scene_one_light)
       = Some (Inr ([], snd (startTimestamp
                              (setScene (Simulator_new (dops exact_platform) 7 8 True 9) scene_one_light))))"
proof -
  let ?s = "setScene (Simulator_new (dops exact_platform) 7 8 True 9) scene_one_light"
  have r: "reachable exact_platform ?s" by (intro r_setScene r_new)
  have e: "\<forall>x\<in>set (animations ?s). keyframes x = []"
    by (simp add: animations_def setScene_def scene_one_light_def addLight_def Scene_default_def
        Simulator_new_def)
  from static_scene_no_frames [of "\<lparr>keyframes = []\<rparr> :: rat Animation" exact_platform ?s] r e
  show ?thesis by simp
qed


section \<open>The frame duration\<close>

text \<open>
  Claim C5, as amended. \<open>frameDuration()\<close> is the conversion to \<open>long long\<close> of the sum of
  \<open>subFrameDuration() * subFrameCount\<close> and \<open>pauseTime * 1e6\<close>, where \<open>subFrameDuration()\<close> is
  \<open>(exposureTime + readoutTime) * 1e6\<close> already converted to \<open>long long\<close>, that is, to whole
  microseconds; \<open>subFrameCount\<close> is 4 if and only if PMD output is enabled and 1 otherwise.
  This holds for every implementation of the floating-point operations.
\<close>

theorem frameDuration_formula:
  "frameDuration dop s =
     ll_of_double dop
       (double_of_ll dop
          (ll_of_double dop
             ((exposureTime (m_chipTiming s) + readoutTime (m_chipTiming s))
                * double_of_ll dop 1000000)
           * (if pmd (m_output s) then 4 else 1))
        + pauseTime (m_chipTiming s) * double_of_ll dop 1000000)
   \<and> (subFrames s = 4 \<longleftrightarrow> pmd (m_output s))
   \<and> (subFrames s = 1 \<longleftrightarrow> \<not> pmd (m_output s))"
  by (simp add: frameDuration_def subFrameDuration_def ChipTiming_subFrameDuration_def
      subFrames_def)

lemma floor_third: "\<lfloor>(100000::rat) / 3\<rfloor> = 33333" "\<lfloor>(400000::rat) / 3\<rfloor> = 133333"
  using floor_divide_of_int_eq [of 100000 3, where 'a = rat]
    floor_divide_of_int_eq [of 400000 3, where 'a = rat] by simp_all


text \<open>
  Claim C5 as stated fails: with the default chip timing (exposure and readout time 1/60 s,
  no pause) and PMD output, a sub-frame lasts 33333 whole microseconds and a frame
  4 * 33333 = 133332, while the law of the specification gives 400000/3 microseconds,
  which is 133333 when converted to \<open>long long\<close>.
\<close>

theorem frameDuration_law_counterexample:
  "frameDuration (dops exact_platform) pmd_simulator = 133332
   \<and> frameDuration_law (dops exact_platform) pmd_simulator = 400000 / 3
   \<and> ll_of_double (dops exact_platform) (frameDuration_law (dops exact_platform) pmd_simulator)
       = 133333
   \<and> double_of_ll (dops exact_platform) (frameDuration (dops exact_platform) pmd_simulator)
       \<noteq> frameDuration_law (dops exact_platform) pmd_simulator
   \<and> frameDuration (dops exact_platform) pmd_simulator
       \<noteq> ll_of_double (dops exact_platform)
            (frameDuration_law (dops exact_platform) pmd_simulator)"
  by (simp add: frameDuration_def frameDuration_law_def subFrameDuration_def
      ChipTiming_subFrameDuration_def subFrames_def pmd_simulator_def setOutput_def
      Simulator_new_def ChipTiming_default_def Output_default_def exact_platform_def
      truncate_rat_def floor_third)



section \<open>Runs on the exact platform\<close>

lemma upt_4: "[0..<4] = [0, 1, 2, 3]" "[0..<2] = [0, 1]"
  by (simp_all add: upt_rec)

lemma interpolate_empty:
  "interpolate fo \<lparr>keyframes = []\<rparr> ts = Inr Transformation_default"
  by (simp add: interpolate_def)

lemma interpolate_fixed_at: "interpolate fo (fixed_at tr) ts = Inr tr"
  by (simp add: interpolate_def fixed_at_def startTime_def endTime_def)

lemmas run_defs =
  simulate_def recreateShadersIfNecessary_def sanityChecks_def linkPrograms_def
  recreateOutputIfNecessary_def simulateTimestamps_def simulateTimestampsAt_def
  simulateSampleTimestamp_def interpolateAll_def interpolateAt_def subFrames_def
  Simulator_new_def setScene_def setOutput_def Scene_default_def addLight_def
  Pipeline_default_def Output_default_def QList_at_def Let_def signed_modulo_int_def
  interpolate_fixed_at interpolate_empty upt_4 exact_platform_def subFrameDuration_def
  ChipTiming_subFrameDuration_def ChipTiming_default_def truncate_rat_def floor_third
  numeral_eq_Suc

lemma run_first:
  "\<exists>s. simulate exact_platform first_simulate 5 = Inr s"
  by (simp add: run_defs first_simulate_def scene_one_light_def)

lemma run_rgb:
  "\<exists>s. simulate exact_platform rgb_two_lights 0 = Inr s
        \<and> m_lightTransformations s = [[translate 1 0 0, translate 0 2 0]]
        \<and> m_timestamps s = [0]
        \<and> m_scene s = scene_two_lights \<and> m_output s = Output_default
        \<and> \<not> m_recreateOutput s \<and> m_haveLastFrameTimestamp s"
  by (simp add: run_defs rgb_two_lights_def scene_two_lights_def)

lemma run_pmd:
  "\<exists>s. simulate exact_platform pmd_two_lights 0 = Inr s
        \<and> m_lightTransformations s = replicate 4 [translate 1 0 0, translate 0 2 0]
        \<and> m_timestamps s = [0, 33333, 66666, 99999]
        \<and> m_scene s = scene_two_lights \<and> m_output s = Output_default\<lparr>pmd := True\<rparr>
        \<and> \<not> m_recreateOutput s \<and> m_haveLastFrameTimestamp s"
  by (simp add: run_defs pmd_two_lights_def scene_two_lights_def)


section \<open>The next frame time stamp\<close>

text \<open>Before the first call of \<open>simulate\<close> the next frame time stamp is the start time
  stamp.\<close>

lemma nextFrameTimestamp_before_simulate:
  assumes "never_simulated dop s"
  shows "nextFrameTimestamp dop s = startTimestamp s"
proof -
  from never_simulated_flags [OF assms]
  have "\<not> m_haveLastFrameTimestamp (recreateTimestampsIfNecessary s)"
    by (auto simp: recreateTimestampsIfNecessary_def Let_def)
  then show ?thesis
    by (simp add: nextFrameTimestamp_def startTimestamp_def Let_def)
qed

lemma simulate_last:
  "simulate pf s ts = Inr s' \<Longrightarrow> m_haveLastFrameTimestamp s' \<and> m_lastFrameTimestamp s' = ts"
  by (auto simp: simulate_def split: sum.splits)

text \<open>When the time stamp bounds were resolved before \<open>simulate(ts)\<close> (by a call of
  \<open>startTimestamp()\<close>, \<open>endTimestamp()\<close> or \<open>nextFrameTimestamp()\<close> after the last setter that
  marks them), the next frame time stamp is \<open>ts + frameDuration()\<close>.\<close>

lemma nextFrameTimestamp_resolved:
  assumes "\<not> m_recreateTimestamps s" and "simulate pf s ts = Inr s'"
  shows "fst (nextFrameTimestamp dop s') = ts + frameDuration dop s'"
proof -
  from kept_simulate [OF assms(2)] assms(1) have "\<not> m_recreateTimestamps s'"
    by (simp add: kept_by_simulate_def)
  with simulate_last [OF assms(2)] show ?thesis
    by (simp add: nextFrameTimestamp_def recreateTimestampsIfNecessary_def)
qed

text \<open>When they were not, \<open>simulate\<close> does not resolve them, the next query does, and
  resolving them forgets the frame: the next frame time stamp is the start time stamp.\<close>

lemma nextFrameTimestamp_unresolved:
  assumes "m_recreateTimestamps s" and "simulate pf s ts = Inr s'"
  shows "fst (nextFrameTimestamp dop s') = Min (set (map startTime (animations s)))"
proof -
  from kept_simulate [OF assms(2)] assms(1)
  have k: "m_recreateTimestamps s'" "animations s' = animations s"
    by (simp_all add: kept_by_simulate_def animations_def)
  have "\<not> m_haveLastFrameTimestamp (recreateTimestampsIfNecessary s')"
    using k(1) by (simp add: recreateTimestampsIfNecessary_def Let_def)
  then have "fst (nextFrameTimestamp dop s') = m_startTimestamp (recreateTimestampsIfNecessary s')"
    by (simp add: nextFrameTimestamp_def startTimestamp_def Let_def)
  with recreate_start [OF k(1)] k(2) show ?thesis by simp
qed

text \<open>
  Claim C1 fails on the code. A program constructs a simulator, sets a scene with one
  light and no key frames and calls \<open>simulate(5)\<close>, as \<open>camsim-helloworld\<close> does with
  \<open>simulate(0)\<close>. The frame duration is 33333, so the claim and the documentation of
  \<open>nextFrameTimestamp()\<close> give 5 + 33333 for the next frame; the code returns the start
  time stamp 0.
\<close>

theorem nextFrameTimestamp_after_first_simulate:
  "\<exists>s. simulate exact_platform first_simulate 5 = Inr s
        \<and> fst (nextFrameTimestamp (dops exact_platform) s) = 0
        \<and> frameDuration (dops exact_platform) s = 33333
        \<and> fst (nextFrameTimestamp (dops exact_platform) s)
            \<noteq> 5 + frameDuration (dops exact_platform) s"
proof -
  from run_first obtain s where s: "simulate exact_platform first_simulate 5 = Inr s" ..
  have d: "m_recreateTimestamps first_simulate"
    by (simp add: first_simulate_def setScene_def)
  have "map startTime (animations first_simulate) = [0, 0]"
    by (simp add: animations_def first_simulate_def setScene_def Simulator_new_def
        scene_one_light_def addLight_def Scene_default_def startTime_def)
  with nextFrameTimestamp_unresolved [OF d s, of "dops exact_platform"]
  have n: "fst (nextFrameTimestamp (dops exact_platform) s) = 0" by simp
  from kept_simulate [OF s]
  have "m_chipTiming s = ChipTiming_default (dops exact_platform)" "m_output s = Output_default"
    by (simp_all add: kept_by_simulate_def first_simulate_def setScene_def Simulator_new_def)
  then have f: "frameDuration (dops exact_platform) s = 33333"
    by (simp add: frameDuration_def subFrameDuration_def ChipTiming_subFrameDuration_def
        subFrames_def ChipTiming_default_def Output_default_def exact_platform_def
        truncate_rat_def floor_third)
  from s n f show ?thesis by simp
qed


section \<open>The transformations of lights and objects\<close>

text \<open>
  Claim C2 fails on the code. \<open>simulate\<close> stores the transformation of light \<open>l\<close> in sub-frame
  \<open>i\<close> at \<open>_lightTransformations[i][l]\<close>; \<open>getLightTransformation(l, i)\<close> reads
  \<open>_lightTransformations[l][i]\<close>, and \<open>getObjectTransformation\<close> does the same with
  \<open>_objectTransformations\<close>. With two lights at different fixed places and PMD output
  (four sub-frames), \<open>getLightTransformation(1, 0)\<close> is the transformation of light 0, not
  that of light 1 at the time stamp of sub-frame 0. With RGB output only (one sub-frame)
  the access is outside the bounds of the vector.
\<close>

theorem getLightTransformation_transposed:
  "(\<exists>s. simulate exact_platform pmd_two_lights 0 = Inr s
         \<and> m_timestamps s = [0, 33333, 66666, 99999]
         \<and> interpolate (fops exact_platform) (lightAnimations (m_scene s) ! 1) 0
             = Inr (translate 0 2 0)
         \<and> getLightTransformation s 1 0 = Inr (translate 1 0 0)
         \<and> getLightTransformation s 1 0
             \<noteq> interpolate (fops exact_platform) (lightAnimations (m_scene s) ! 1) 0)
   \<and> (\<exists>s. simulate exact_platform rgb_two_lights 0 = Inr s
         \<and> getLightTransformation s 1 0 = Inl IndexOutOfRange
         \<and> getLightTransformation s 1 (- 1) = Inl IndexOutOfRange)"
proof
  from run_pmd obtain s where s: "simulate exact_platform pmd_two_lights 0 = Inr s"
    "m_lightTransformations s = replicate 4 [translate 1 0 0, translate 0 2 0]"
    "m_timestamps s = [0, 33333, 66666, 99999]" "m_scene s = scene_two_lights"
    "m_output s = Output_default\<lparr>pmd := True\<rparr>" "\<not> m_recreateOutput s"
    "m_haveLastFrameTimestamp s" by blast
  note t = s(3)
  have i: "interpolate (fops exact_platform) (lightAnimations (m_scene s) ! 1) 0
             = Inr (translate 0 2 0)"
    using s(4) by (simp add: scene_two_lights_def addLight_def Scene_default_def
        interpolate_fixed_at)
  have g: "getLightTransformation s 1 0 = Inr (translate 1 0 0)"
    using s by (simp add: getLightTransformation_def haveValidOutput_def subFrames_def
        QVector_at2_def QList_at_def scene_two_lights_def addLight_def Scene_default_def
        numeral_eq_Suc)
  have "translate 1 0 0 \<noteq> translate 0 2 0"
    by (simp add: translate_def Transformation_default_def)
  with s(1) t i g
  show "\<exists>s. simulate exact_platform pmd_two_lights 0 = Inr s
         \<and> m_timestamps s = [0, 33333, 66666, 99999]
         \<and> interpolate (fops exact_platform) (lightAnimations (m_scene s) ! 1) 0
             = Inr (translate 0 2 0)
         \<and> getLightTransformation s 1 0 = Inr (translate 1 0 0)
         \<and> getLightTransformation s 1 0
             \<noteq> interpolate (fops exact_platform) (lightAnimations (m_scene s) ! 1) 0"
    by auto
next
  from run_rgb obtain s where s: "simulate exact_platform rgb_two_lights 0 = Inr s"
    "m_lightTransformations s = [[translate 1 0 0, translate 0 2 0]]"
    "m_scene s = scene_two_lights" "m_output s = Output_default" "\<not> m_recreateOutput s"
    "m_haveLastFrameTimestamp s" by blast
  have "getLightTransformation s 1 0 = Inl IndexOutOfRange"
    "getLightTransformation s 1 (- 1) = Inl IndexOutOfRange"
    using s by (simp_all add: getLightTransformation_def haveValidOutput_def subFrames_def
        QVector_at2_def QList_at_def scene_two_lights_def addLight_def Scene_default_def
        Output_default_def)
  with s(1)
  show "\<exists>s. simulate exact_platform rgb_two_lights 0 = Inr s
         \<and> getLightTransformation s 1 0 = Inl IndexOutOfRange
         \<and> getLightTransformation s 1 (- 1) = Inl IndexOutOfRange"
    by auto
qed


end
